theory Spec2Isabelle
  imports Main
begin

section \<open>The create-js-backend command-line generator\<close>

text \<open>
  The program is one asynchronous action handler (the file with the shebang line,
  \<^verbatim>\<open>program.argument("<project-name>").action(async (initialProjectName) => ...)\<close>).
  It is a straight line of awaited calls with early exits. The model below follows
  it statement by statement:
  \<^item> everything the handler prints or asks the outside world to do is an \<open>event\<close>
    appended to a trace, in program order;
  \<^item> everything the outside world answers (does the directory exist, did the copy
    throw, what did the operator reply) is a field of the record \<open>env\<close>;
  \<^item> \<^verbatim>\<open>process.exit\<close>, a rejected promise nobody catches, and a prompt that is
    never answered acceptably end the run early (\<open>Halt\<close>).
\<close>

subsection \<open>JSON values and objects\<close>

datatype json =
    JNull
  | JBool bool
  | JNum int
  | JStr string
  | JArr "json list"
  | JObj "(string \<times> json) list"

text \<open>
  A JavaScript object with string keys, in property order. The manifest that
  \<^verbatim>\<open>fs.readJson\<close> returns and the answers that \<^verbatim>\<open>inquirer.prompt\<close> returns are such
  objects.
\<close>

type_synonym object = "(string \<times> json) list"

text \<open>\<^verbatim>\<open>target[key] = value\<close>: an existing property keeps its place, a new one goes last.\<close>

primrec set_property :: "string \<Rightarrow> json \<Rightarrow> object \<Rightarrow> object" where
  "set_property k v [] = [(k, v)]"
| "set_property k v (p # ps) =
     (if fst p = k then (k, v) # ps else p # set_property k v ps)"

text \<open>
  \<^verbatim>\<open>Object.assign(target, source)\<close>: every own property of the source, in order, is
  assigned to the target. Values are assigned whole (a shallow merge).
\<close>

definition object_assign :: "object \<Rightarrow> object \<Rightarrow> object" where
  "object_assign target source = fold (\<lambda>(k, v) t. set_property k v t) source target"

text \<open>Property read \<^verbatim>\<open>obj.key\<close> (\<open>None\<close> is \<^verbatim>\<open>undefined\<close>) and JavaScript truthiness.\<close>

definition get_property :: "object \<Rightarrow> string \<Rightarrow> json option" where
  "get_property obj k = map_of obj k"

fun truthy :: "json option \<Rightarrow> bool" where
  "truthy None = False"
| "truthy (Some JNull) = False"
| "truthy (Some (JBool b)) = b"
| "truthy (Some (JNum n)) = (n \<noteq> 0)"
| "truthy (Some (JStr s)) = (s \<noteq> [])"
| "truthy (Some (JArr xs)) = True"
| "truthy (Some (JObj kvs)) = True"

subsection \<open>Output and effects\<close>

datatype colour = Blue | Yellow | Green | Red | Magenta | Gray | Cyan

text \<open>A string as given to the console or a spinner: plain, or wrapped by \<^verbatim>\<open>chalk.<colour>\<close>.\<close>

datatype styled = Plain string | Chalk colour string

datatype event =
    Console_log styled
  | Console_error styled
  | Spinner_start styled
  | Spinner_succeed styled
  | Spinner_fail styled
  | Prompted string
  | Fs_remove string
  | Fs_copy string string
  | Chdir string
  | Read_json string
  | Write_json string object
  | Execa string "string list" string

text \<open>
  How a run ends before the last statement: \<^verbatim>\<open>process.exit(n)\<close>; an exception or
  rejected promise that no \<^verbatim>\<open>catch\<close> of the handler receives (with its message); or a
  prompt that is still open because no reply was accepted.
\<close>

datatype halt = Exited int | Unhandled string | Waiting

datatype 'a step = Next "event list" 'a | Halt "event list" halt

definition emit :: "event list \<Rightarrow> unit step" where
  "emit es = Next es ()"

text \<open>The events \<open>es\<close> happened before the step \<open>s\<close>.\<close>

fun prepend :: "event list \<Rightarrow> 'a step \<Rightarrow> 'a step" where
  "prepend es (Next es' y) = Next (es @ es') y"
| "prepend es (Halt es' h) = Halt (es @ es') h"

text \<open>Sequencing of awaited statements: a halted run does not go on.\<close>

definition and_then :: "'a step \<Rightarrow> ('a \<Rightarrow> 'b step) \<Rightarrow> 'b step" where
  "and_then m f =
     (case m of
        Halt es h \<Rightarrow> Halt es h
      | Next es x \<Rightarrow> prepend es (f x))"

fun events :: "'a step \<Rightarrow> event list" where
  "events (Next es x) = es"
| "events (Halt es h) = es"

fun completed :: "'a step \<Rightarrow> bool" where
  "completed (Next es x) = True"
| "completed (Halt es h) = False"

fun outcome :: "'a step \<Rightarrow> halt option" where
  "outcome (Next es x) = None"
| "outcome (Halt es h) = Some h"

text \<open>
  The process exit status where the handler fixes it: a handler that runs to its end
  leaves the status at 0, \<^verbatim>\<open>process.exit(n)\<close> sets it to \<open>n\<close>.
\<close>

fun exit_code :: "'a step \<Rightarrow> int option" where
  "exit_code (Next es x) = Some 0"
| "exit_code (Halt es (Exited n)) = Some n"
| "exit_code (Halt es (Unhandled msg)) = None"
| "exit_code (Halt es Waiting) = None"

text \<open>The \<^verbatim>\<open>fs.writeJson\<close> calls of a trace, in order: the path and the object written.\<close>

fun writes :: "event list \<Rightarrow> (string \<times> object) list" where
  "writes [] = []"
| "writes (Write_json p obj # es) = (p, obj) # writes es"
| "writes (e # es) = writes es"

text \<open>The subprocesses a trace starts, in order: command, arguments, working directory.\<close>

fun execs :: "event list \<Rightarrow> (string \<times> string list \<times> string) list" where
  "execs [] = []"
| "execs (Execa c args d # es) = (c, args, d) # execs es"
| "execs (e # es) = execs es"

text \<open>The events that change the file system, the working directory, or start a subprocess.\<close>

fun is_mutation :: "event \<Rightarrow> bool" where
  "is_mutation (Fs_remove p) = True"
| "is_mutation (Fs_copy s d) = True"
| "is_mutation (Chdir p) = True"
| "is_mutation (Write_json p obj) = True"
| "is_mutation (Execa c args d) = True"
| "is_mutation e = False"

subsection \<open>The prompt facility\<close>

text \<open>
  \<^verbatim>\<open>inquirer\<close> is an external library. The handler gives it questions of three shapes
  (\<^verbatim>\<open>type: "input"\<close> with a default and an optional \<^verbatim>\<open>validate\<close>; \<^verbatim>\<open>type: "confirm"\<close>
  with a default; \<^verbatim>\<open>type: "list"\<close> with choices and a default) and receives an object
  keyed by the questions' names.
\<close>

datatype validation = Valid | Invalid string

datatype question =
    Input string string string "(string \<Rightarrow> validation) option"
  | Confirm string string bool
  | List_choice string string "string list" string

fun qname :: "question \<Rightarrow> string" where
  "qname (Input n m d v) = n"
| "qname (Confirm n m d) = n"
| "qname (List_choice n m cs d) = n"

fun message :: "question \<Rightarrow> string" where
  "message (Input n m d v) = m"
| "message (Confirm n m d) = m"
| "message (List_choice n m cs d) = m"

text \<open>
  What the operator does at one prompt: accept the default unchanged, submit a line of
  text, say yes or no, or pick the choice at a position of the list.
\<close>

datatype reply = Enter | Typed string | Said bool | Chosen nat

definition validated :: "(string \<Rightarrow> validation) option \<Rightarrow> string \<Rightarrow> json option" where
  "validated v s =
     (case v of
        None \<Rightarrow> Some (JStr s)
      | Some f \<Rightarrow> (case f s of Valid \<Rightarrow> Some (JStr s) | Invalid msg \<Rightarrow> None))"

text \<open>
  The answer one reply gives, or \<open>None\<close> when the prompt does not take it and stays
  open: a rejected text, a position outside the list, a reply of the wrong kind. At an
  input prompt an empty line stands for the question's default: the default is put in
  its place before the validator sees the value.
\<close>

fun accept :: "question \<Rightarrow> reply \<Rightarrow> json option" where
  "accept (Input n m d v) Enter = validated v d"
| "accept (Input n m d v) (Typed s) = validated v (if s = [] then d else s)"
| "accept (Confirm n m d) Enter = Some (JBool d)"
| "accept (Confirm n m d) (Said b) = Some (JBool b)"
| "accept (List_choice n m cs d) Enter = Some (JStr d)"
| "accept (List_choice n m cs d) (Chosen i) =
     (if i < length cs then Some (JStr (cs ! i)) else None)"
| "accept q r = None"

text \<open>One question: the operator replies until a reply is accepted.\<close>

fun ask :: "question \<Rightarrow> reply list \<Rightarrow> json option" where
  "ask q [] = None"
| "ask q (r # rs) = (case accept q r of Some a \<Rightarrow> Some a | None \<Rightarrow> ask q rs)"

text \<open>
  \<^verbatim>\<open>await inquirer.prompt(questions)\<close>: the questions are put one after the other, each
  after the previous one is answered; \<open>rs\<close> gives the operator's replies to the question
  of each name.
\<close>

fun prompt :: "question list \<Rightarrow> (string \<Rightarrow> reply list) \<Rightarrow> object step" where
  "prompt [] rs = Next [] []"
| "prompt (q # qs) rs =
     (case ask q (rs (qname q)) of
        None \<Rightarrow> Halt [Prompted (message q)] Waiting
      | Some a \<Rightarrow>
          and_then (emit [Prompted (message q)]) (\<lambda>_.
          and_then (prompt qs rs) (\<lambda>answers.
          Next [] ((qname q, a) # answers))))"

subsection \<open>The world a run meets\<close>

text \<open>
  The results of the calls the handler makes outside itself. For a call that can
  throw or reject, \<open>None\<close> is success and \<open>Some msg\<close> an error with \<^verbatim>\<open>err.message = msg\<close>.
  \<open>path_join\<close> and \<open>path_basename\<close> are Node's \<^verbatim>\<open>path.join\<close> and \<^verbatim>\<open>path.basename\<close>.
  \<open>read_json\<close> gives the parsed manifest, a JSON object as the bundled \<^verbatim>\<open>package.json\<close>
  is, or the error message.
\<close>

record env =
  cwd :: string
  dirname :: string
  path_join :: "string \<Rightarrow> string \<Rightarrow> string"
  path_basename :: "string \<Rightarrow> string"
  exists_sync :: "string \<Rightarrow> bool"
  replies :: "string \<Rightarrow> reply list"
  fs_remove :: "string \<Rightarrow> string option"
  fs_copy :: "string \<Rightarrow> string \<Rightarrow> string option"
  chdir :: "string \<Rightarrow> string option"
  read_json :: "string \<Rightarrow> string + object"
  write_json :: "string \<Rightarrow> object \<Rightarrow> string option"
  execa :: "string \<Rightarrow> string list \<Rightarrow> string \<Rightarrow> string option"

subsection \<open>The handler\<close>

abbreviation nl :: char where
  "nl \<equiv> CHR 0x0A"

abbreviation dq :: char where
  "dq \<equiv> CHR 0x22"

text \<open>The nine bytes that stand before \<^verbatim>\<open>Project\<close> in the success banner of the source file.\<close>

definition banner_mark :: string where
  "banner_mark =
     [CHR 0xC3, CHR 0xB0, CHR 0xC5, CHR 0xB8, CHR 0xC5, CHR 0xBD, CHR 0xE2, CHR 0x80, CHR 0xB0]"

definition overwrite_question :: "string \<Rightarrow> question" where
  "overwrite_question initialProjectName =
     Confirm ''overwrite''
       (''Directory '' @ [dq] @ initialProjectName @ [dq] @ '' already exists. Overwrite?'')
       False"

definition validate_name :: "string \<Rightarrow> validation" where
  "validate_name input =
     (if length input > 0 then Valid else Invalid ''Package name cannot be empty.'')"

definition npm_init_questions :: "string \<Rightarrow> question list" where
  "npm_init_questions base =
     [Input ''name'' ''package name:'' base (Some validate_name),
      Input ''description'' ''description:''
        ''Boilerplate for JavaScript backend application'' None,
      Input ''version'' ''version:'' ''1.0.0'' None,
      Input ''author'' ''author:'' '''' None,
      List_choice ''license'' ''license:'' [''ISC'', ''MIT'', ''UNLICENSED''] ''ISC'',
      Input ''main'' ''entry point:'' ''index.js'' None]"

definition install_question :: question where
  "install_question =
     Confirm ''installDeps'' ''Install npm dependencies (npm install)?'' True"

text \<open>Lines 32 to 55: the check for an existing target directory.\<close>

definition check_existing :: "env \<Rightarrow> string \<Rightarrow> string \<Rightarrow> unit step" where
  "check_existing e initialProjectName targetDir =
     (if exists_sync e targetDir then
        and_then (prompt [overwrite_question initialProjectName] (replies e)) (\<lambda>answers.
          if truthy (get_property answers ''overwrite'') then
            and_then
              (emit [Spinner_start (Chalk Yellow ''Removing existing directory...''),
                     Fs_remove targetDir]) (\<lambda>_.
              case fs_remove e targetDir of
                None \<Rightarrow> emit [Spinner_succeed (Chalk Green ''Existing directory removed.'')]
              | Some msg \<Rightarrow>
                  Halt [Spinner_fail (Chalk Red ''Failed to remove existing directory.''),
                        Console_error (Chalk Red msg)] (Exited 1))
          else Halt [Console_log (Chalk Yellow ''Aborting project creation.'')] (Exited 0))
      else emit [])"

text \<open>Lines 57 to 69: the copy of the boilerplate.\<close>

definition copy_boilerplate :: "env \<Rightarrow> string \<Rightarrow> string \<Rightarrow> unit step" where
  "copy_boilerplate e boilerplateDir targetDir =
     and_then
       (emit [Spinner_start (Plain ''Copying boilerplate files...''),
              Fs_copy boilerplateDir targetDir]) (\<lambda>_.
       case fs_copy e boilerplateDir targetDir of
         None \<Rightarrow> emit [Spinner_succeed (Chalk Green ''Boilerplate copied!'')]
       | Some msg \<Rightarrow>
           Halt [Spinner_fail (Chalk Red ''Error copying boilerplate!''),
                 Console_error (Chalk Red msg)] (Exited 1))"

text \<open>Line 72: \<^verbatim>\<open>process.chdir(targetDir)\<close>, outside any \<^verbatim>\<open>try\<close>.\<close>

definition change_directory :: "env \<Rightarrow> string \<Rightarrow> unit step" where
  "change_directory e targetDir =
     (case chdir e targetDir of
        None \<Rightarrow> emit [Chdir targetDir]
      | Some msg \<Rightarrow> Halt [Chdir targetDir] (Unhandled msg))"

text \<open>Lines 75 to 119: the metadata prompts.\<close>

definition metadata_setup :: "env \<Rightarrow> string \<Rightarrow> object step" where
  "metadata_setup e targetDir =
     and_then
       (emit [Console_log (Chalk Magenta (nl # ''--- Project Metadata Setup ---'')),
              Console_log (Chalk Gray ''This will guide you through setting up package.json.'')])
       (\<lambda>_. prompt (npm_init_questions (path_basename e targetDir)) (replies e))"

text \<open>Lines 122 to 131: read, merge, write; none of the three calls is inside a \<^verbatim>\<open>try\<close>.\<close>

definition update_manifest :: "env \<Rightarrow> string \<Rightarrow> object \<Rightarrow> unit step" where
  "update_manifest e targetDir npmInitAnswers =
     (let packageJsonPath = path_join e targetDir ''package.json'' in
      case read_json e packageJsonPath of
        Inl msg \<Rightarrow> Halt [Read_json packageJsonPath] (Unhandled msg)
      | Inr packageJson \<Rightarrow>
          (let merged = object_assign packageJson npmInitAnswers in
           case write_json e packageJsonPath merged of
             Some msg \<Rightarrow>
               Halt [Read_json packageJsonPath, Write_json packageJsonPath merged]
                 (Unhandled msg)
           | None \<Rightarrow>
               emit [Read_json packageJsonPath, Write_json packageJsonPath merged,
                     Console_log (Chalk Green ''package.json updated with your details!'')]))"

text \<open>Lines 144 to 154: the optional dependency installation.\<close>

definition install_dependencies :: "env \<Rightarrow> string \<Rightarrow> object \<Rightarrow> unit step" where
  "install_dependencies e targetDir otherAnswers =
     (if truthy (get_property otherAnswers ''installDeps'') then
        and_then
          (emit [Spinner_start (Plain ''Installing npm dependencies...''),
                 Execa ''npm'' [''install''] targetDir]) (\<lambda>_.
          case execa e ''npm'' [''install''] targetDir of
            None \<Rightarrow> emit [Spinner_succeed (Chalk Green ''Dependencies installed!'')]
          | Some msg \<Rightarrow>
              emit [Spinner_fail (Chalk Red ''Dependency installation failed!''),
                    Console_error (Chalk Red msg)])
      else emit [])"

text \<open>Lines 157 to 165: the repository initialisation.\<close>

definition git_init :: "env \<Rightarrow> string \<Rightarrow> unit step" where
  "git_init e targetDir =
     and_then
       (emit [Spinner_start (Plain ''Initializing Git repository...''),
              Execa ''git'' [''init''] targetDir]) (\<lambda>_.
       case execa e ''git'' [''init''] targetDir of
         None \<Rightarrow> emit [Spinner_succeed (Chalk Green ''Git repository initialized!'')]
       | Some msg \<Rightarrow>
           emit [Spinner_fail (Chalk Red ''Git initialization failed!''),
                 Console_error (Chalk Red msg)])"

text \<open>Lines 168 to 176: the final messages.\<close>

definition success_banner :: "string \<Rightarrow> event" where
  "success_banner initialProjectName =
     Console_log (Chalk Green
       (nl # banner_mark @ '' Project '' @ [dq] @ initialProjectName @ [dq]
          @ '' created successfully!''))"

definition install_hint :: event where
  "install_hint = Console_log (Chalk Cyan ''  npm install'')"

definition summary :: "string \<Rightarrow> object \<Rightarrow> unit step" where
  "summary initialProjectName otherAnswers =
     emit ([success_banner initialProjectName,
            Console_log (Chalk Cyan (nl # ''Next steps:'')),
            Console_log (Chalk Cyan (''  cd '' @ initialProjectName))]
           @ (if \<not> truthy (get_property otherAnswers ''installDeps'')
              then [install_hint] else [])
           @ [Console_log (Chalk Cyan ''  npm run dev (or npm start)''),
              Console_log (Chalk Cyan (''  Don'' @ [CHR 0x27] @ ''t forget to configure your .env file!'')),
              Console_log (Plain (nl # ''Happy coding!''))])"

text \<open>Lines 24 to 177: the whole handler.\<close>

definition target_dir :: "env \<Rightarrow> string \<Rightarrow> string" where
  "target_dir e initialProjectName = path_join e (cwd e) initialProjectName"

definition action :: "env \<Rightarrow> string \<Rightarrow> unit step" where
  "action e initialProjectName =
     (let targetDir = target_dir e initialProjectName;
          boilerplateDir = path_join e (dirname e) ''boilerplate''
      in
      and_then
        (emit [Console_log (Chalk Blue
                 (nl # ''Creating new project: '' @ initialProjectName @ [nl]))]) (\<lambda>_.
      and_then (check_existing e initialProjectName targetDir) (\<lambda>_.
      and_then (copy_boilerplate e boilerplateDir targetDir) (\<lambda>_.
      and_then (change_directory e targetDir) (\<lambda>_.
      and_then (metadata_setup e targetDir) (\<lambda>npmInitAnswers.
      and_then (update_manifest e targetDir npmInitAnswers) (\<lambda>_.
      and_then (prompt [install_question] (replies e)) (\<lambda>otherAnswers.
      and_then (install_dependencies e targetDir otherAnswers) (\<lambda>_.
      and_then (git_init e targetDir) (\<lambda>_.
      summary initialProjectName otherAnswers))))))))))"

subsection \<open>A sample world\<close>

text \<open>
  The last path segment, for the sample world: the characters after the last slash.
\<close>

definition last_segment :: "string \<Rightarrow> string" where
  "last_segment p = rev (takeWhile (\<lambda>c. c \<noteq> CHR ''/'') (rev p))"

definition sample_manifest :: object where
  "sample_manifest =
     [(''name'', JStr ''boilerplate''),
      (''version'', JStr ''0.0.1''),
      (''type'', JStr ''module''),
      (''scripts'', JObj [(''dev'', JStr ''nodemon src/index.js'')]),
      (''license'', JStr ''GPL-3.0'')]"

text \<open>
  No directory in the way; the operator names the package \<open>demo-api\<close>, types a
  description, picks the second licence, accepts every other
  default and the installation; nothing fails.
\<close>

definition sample_env :: env where
  "sample_env =
     \<lparr> cwd = ''/home/op'',
       dirname = ''/usr/lib/create-js-backend'',
       path_join = (\<lambda>a b. a @ ''/'' @ b),
       path_basename = last_segment,
       exists_sync = (\<lambda>p. False),
       replies = (\<lambda>q.
         if q = ''name'' then [Typed ''demo-api'']
         else if q = ''description'' then [Typed ''A demo'']
         else if q = ''license'' then [Chosen 1]
         else [Enter]),
       fs_remove = (\<lambda>p. None),
       fs_copy = (\<lambda>s d. None),
       chdir = (\<lambda>p. None),
       read_json = (\<lambda>p. Inr sample_manifest),
       write_json = (\<lambda>p obj. None),
       execa = (\<lambda>c args d. None) \<rparr>"

text \<open>
  Variations of the sample world: the manifest cannot be written, after the operator
  tried a position outside the license list and a text there before picking the third
  choice; the target directory exists and the operator accepts
  the default of the overwrite confirmation; it exists, the operator says yes, and the
  removal throws; the copy throws; \<^verbatim>\<open>npm install\<close> exits non-zero; the operator declines
  the installation; the copied tree has no readable manifest; the operator provides
  texts, one of them empty, at the unvalidated prompts; the operator submits an empty
  line at the package name; the operator accepts every default.
\<close>

definition write_fails_env :: env where
  "write_fails_env =
     sample_env\<lparr> replies := (\<lambda>q. if q = ''license'' then [Chosen 7, Typed ''GPL'', Chosen 2] else [Enter]),
                 write_json := (\<lambda>p obj. Some ''EACCES: permission denied'') \<rparr>"

definition declined_env :: env where
  "declined_env = sample_env\<lparr> exists_sync := (\<lambda>p. True) \<rparr>"

definition remove_fails_env :: env where
  "remove_fails_env =
     sample_env\<lparr> exists_sync := (\<lambda>p. True),
                 replies := (\<lambda>q. if q = ''overwrite'' then [Said True] else [Enter]),
                 fs_remove := (\<lambda>p. Some ''EBUSY: resource busy or locked'') \<rparr>"

definition copy_fails_env :: env where
  "copy_fails_env = sample_env\<lparr> fs_copy := (\<lambda>s d. Some ''ENOSPC: no space left on device'') \<rparr>"

definition npm_fails_env :: env where
  "npm_fails_env =
     sample_env\<lparr> execa := (\<lambda>c args d.
       if c = ''npm'' then Some ''Command failed with exit code 1: npm install'' else None) \<rparr>"

definition no_install_env :: env where
  "no_install_env =
     sample_env\<lparr> replies := (\<lambda>q. if q = ''installDeps'' then [Said False] else [Enter]) \<rparr>"

definition manifest_missing_env :: env where
  "manifest_missing_env =
     sample_env\<lparr> read_json := (\<lambda>p. Inl ''ENOENT: no such file or directory'') \<rparr>"




section \<open>Properties\<close>

subsection \<open>Sequencing\<close>

lemma events_prepend [simp]: "events (prepend es s) = es @ events s"
  by (cases s) simp_all

lemma completed_prepend [simp]: "completed (prepend es s) = completed s"
  by (cases s) simp_all

lemma exit_code_prepend [simp]: "exit_code (prepend es s) = exit_code s"
  by (cases s rule: exit_code.cases) simp_all

lemma and_then_Halt [simp]: "and_then (Halt es h) f = Halt es h"
  by (simp add: and_then_def)

lemma and_then_Next [simp]: "and_then (Next es x) f = prepend es (f x)"
  by (simp add: and_then_def)

lemma and_then_emit [simp]: "and_then (emit es) f = prepend es (f ())"
  by (simp add: emit_def)

lemma prepend_Nil [simp]: "prepend [] s = s"
  by (cases s) simp_all

lemma prepend_prepend [simp]: "prepend es (prepend es' s) = prepend (es @ es') s"
  by (cases s) simp_all

lemma prepend_emit [simp]: "prepend es (emit es') = Next (es @ es') ()"
  by (simp add: emit_def)

lemma writes_append [simp]: "writes (xs @ ys) = writes xs @ writes ys"
  by (induction xs rule: writes.induct) simp_all

lemma map_of_set_property: "map_of (set_property k v obj) = (map_of obj)(k \<mapsto> v)"
  by (induction obj) auto

lemma filter_set_property:
  "k \<in> K \<Longrightarrow> [kv \<leftarrow> set_property k v obj. fst kv \<notin> K] = [kv \<leftarrow> obj. fst kv \<notin> K]"
  by (induction obj) auto

lemma prompt_single:
  "prompt [q] rs =
     (case ask q (rs (qname q)) of
        None \<Rightarrow> Halt [Prompted (message q)] Waiting
      | Some a \<Rightarrow> Next [Prompted (message q)] [(qname q, a)])"
  by (simp split: option.splits)

lemma prompt_Next:
  "prompt qs rs = Next es ans \<Longrightarrow>
     es = map (\<lambda>q. Prompted (message q)) qs \<and>
     map fst ans = map qname qs \<and>
     (\<forall>q \<in> set qs. ask q (rs (qname q)) \<noteq> None) \<and>
     ans = map (\<lambda>q. (qname q, the (ask q (rs (qname q))))) qs"
proof (induction qs arbitrary: es ans)
  case Nil
  then show ?case by simp
next
  case (Cons q qs)
  then show ?case
    by (cases "prompt qs rs") (auto split: option.splits)
qed

lemma prompt_Halt:
  "prompt qs rs = Halt es h \<Longrightarrow>
     h = Waiting \<and> (\<exists>k. es = map (\<lambda>q. Prompted (message q)) (take k qs))"
proof (induction qs arbitrary: es)
  case Nil
  then show ?case by simp
next
  case (Cons q qs)
  show ?case
  proof (cases "ask q (rs (qname q))")
    case None
    with Cons.prems have "es = [Prompted (message q)]" "h = Waiting" by auto
    then have "es = map (\<lambda>q. Prompted (message q)) (take 1 (q # qs))" by simp
    with \<open>h = Waiting\<close> show ?thesis by blast
  next
    case (Some a)
    with Cons.prems obtain es' where h: "prompt qs rs = Halt es' h" "es = Prompted (message q) # es'"
      by (cases "prompt qs rs") auto
    from Cons.IH[OF h(1)] obtain k where "h = Waiting" "es' = map (\<lambda>q. Prompted (message q)) (take k qs)"
      by blast
    then have "es = map (\<lambda>q. Prompted (message q)) (take (Suc k) (q # qs))" using h(2) by simp
    with \<open>h = Waiting\<close> show ?thesis by blast
  qed
qed

lemma prompt_total:
  "\<forall>q \<in> set qs. ask q (rs (qname q)) \<noteq> None \<Longrightarrow>
   prompt qs rs = Next (map (\<lambda>q. Prompted (message q)) qs) (map (\<lambda>q. (qname q, the (ask q (rs (qname q))))) qs)"
  by (induction qs) auto


lemma check_existing_unfold:
  "check_existing e n t =
     (if exists_sync e t then
        (case ask (overwrite_question n) (replies e ''overwrite'') of
           None \<Rightarrow> Halt [Prompted (message (overwrite_question n))] Waiting
         | Some a \<Rightarrow>
             if truthy (Some a) then
               (case fs_remove e t of
                  None \<Rightarrow>
                    Next [Prompted (message (overwrite_question n)),
                          Spinner_start (Chalk Yellow ''Removing existing directory...''),
                          Fs_remove t,
                          Spinner_succeed (Chalk Green ''Existing directory removed.'')] ()
                | Some msg \<Rightarrow>
                    Halt [Prompted (message (overwrite_question n)),
                          Spinner_start (Chalk Yellow ''Removing existing directory...''),
                          Fs_remove t,
                          Spinner_fail (Chalk Red ''Failed to remove existing directory.''),
                          Console_error (Chalk Red msg)] (Exited 1))
             else
               Halt [Prompted (message (overwrite_question n)),
                     Console_log (Chalk Yellow ''Aborting project creation.'')] (Exited 0))
      else Next [] ())"
  by (simp add: check_existing_def prompt_single get_property_def overwrite_question_def emit_def
        split: option.splits)

lemma copy_boilerplate_unfold:
  "copy_boilerplate e b t =
     (case fs_copy e b t of
        None \<Rightarrow>
          Next [Spinner_start (Plain ''Copying boilerplate files...''), Fs_copy b t,
                Spinner_succeed (Chalk Green ''Boilerplate copied!'')] ()
      | Some msg \<Rightarrow>
          Halt [Spinner_start (Plain ''Copying boilerplate files...''), Fs_copy b t,
                Spinner_fail (Chalk Red ''Error copying boilerplate!''),
                Console_error (Chalk Red msg)] (Exited 1))"
  by (simp add: copy_boilerplate_def split: option.splits)

lemma install_dependencies_unfold:
  "install_dependencies e t other =
     (if truthy (get_property other ''installDeps'') then
        Next ([Spinner_start (Plain ''Installing npm dependencies...''),
               Execa ''npm'' [''install''] t] @
              (case execa e ''npm'' [''install''] t of
                 None \<Rightarrow> [Spinner_succeed (Chalk Green ''Dependencies installed!'')]
               | Some msg \<Rightarrow>
                   [Spinner_fail (Chalk Red ''Dependency installation failed!''),
                    Console_error (Chalk Red msg)])) ()
      else Next [] ())"
  by (simp add: install_dependencies_def emit_def split: option.splits)

lemma git_init_unfold:
  "git_init e t =
     Next ([Spinner_start (Plain ''Initializing Git repository...''),
            Execa ''git'' [''init''] t] @
           (case execa e ''git'' [''init''] t of
              None \<Rightarrow> [Spinner_succeed (Chalk Green ''Git repository initialized!'')]
            | Some msg \<Rightarrow>
                [Spinner_fail (Chalk Red ''Git initialization failed!''),
                 Console_error (Chalk Red msg)])) ()"
  by (simp add: git_init_def emit_def split: option.splits)

lemma update_manifest_unfold:
  "update_manifest e t answers =
     (case read_json e (path_join e t ''package.json'') of
        Inl msg \<Rightarrow> Halt [Read_json (path_join e t ''package.json'')] (Unhandled msg)
      | Inr pj \<Rightarrow>
          (case write_json e (path_join e t ''package.json'') (object_assign pj answers) of
             Some msg \<Rightarrow>
               Halt [Read_json (path_join e t ''package.json''),
                     Write_json (path_join e t ''package.json'') (object_assign pj answers)]
                 (Unhandled msg)
           | None \<Rightarrow>
               Next [Read_json (path_join e t ''package.json''),
                     Write_json (path_join e t ''package.json'') (object_assign pj answers),
                     Console_log (Chalk Green ''package.json updated with your details!'')] ()))"
  by (simp add: update_manifest_def Let_def emit_def split: sum.splits option.splits)

lemma change_directory_unfold:
  "change_directory e t =
     (case chdir e t of None \<Rightarrow> Next [Chdir t] () | Some msg \<Rightarrow> Halt [Chdir t] (Unhandled msg))"
  by (simp add: change_directory_def emit_def split: option.splits)

lemma metadata_setup_unfold:
  "metadata_setup e t =
     prepend [Console_log (Chalk Magenta (nl # ''--- Project Metadata Setup ---'')),
              Console_log (Chalk Gray ''This will guide you through setting up package.json.'')]
       (prompt (npm_init_questions (path_basename e t)) (replies e))"
  by (simp add: metadata_setup_def)

lemma action_completedD:
  assumes "completed (action e n)"
  shows "\<exists>es1 evs answers pj other.
     check_existing e n (target_dir e n) = Next es1 () \<and>
     fs_copy e (path_join e (dirname e) ''boilerplate'') (target_dir e n) = None \<and>
     chdir e (target_dir e n) = None \<and>
     prompt (npm_init_questions (path_basename e (target_dir e n))) (replies e) = Next evs answers \<and>
     read_json e (path_join e (target_dir e n) ''package.json'') = Inr pj \<and>
     write_json e (path_join e (target_dir e n) ''package.json'') (object_assign pj answers) = None \<and>
     ask install_question (replies e ''installDeps'') = Some other \<and>
     events (action e n) =
       Console_log (Chalk Blue (nl # ''Creating new project: '' @ n @ [nl])) # es1 @
       [Spinner_start (Plain ''Copying boilerplate files...''),
        Fs_copy (path_join e (dirname e) ''boilerplate'') (target_dir e n),
        Spinner_succeed (Chalk Green ''Boilerplate copied!''),
        Chdir (target_dir e n),
        Console_log (Chalk Magenta (nl # ''--- Project Metadata Setup ---'')),
        Console_log (Chalk Gray ''This will guide you through setting up package.json.'')] @
       evs @
       [Read_json (path_join e (target_dir e n) ''package.json''),
        Write_json (path_join e (target_dir e n) ''package.json'') (object_assign pj answers),
        Console_log (Chalk Green ''package.json updated with your details!''),
        Prompted (message install_question)] @
       events (install_dependencies e (target_dir e n) [(''installDeps'', other)]) @
       events (git_init e (target_dir e n)) @
       events (summary n [(''installDeps'', other)])"
proof -
  define t where "t = target_dir e n"
  define b where "b = path_join e (dirname e) ''boilerplate''"
  have A: "action e n =
    prepend [Console_log (Chalk Blue (nl # ''Creating new project: '' @ n @ [nl]))]
     (and_then (check_existing e n t) (\<lambda>_.
      and_then (copy_boilerplate e b t) (\<lambda>_.
      and_then (change_directory e t) (\<lambda>_.
      and_then (metadata_setup e t) (\<lambda>npmInitAnswers.
      and_then (update_manifest e t npmInitAnswers) (\<lambda>_.
      and_then (prompt [install_question] (replies e)) (\<lambda>otherAnswers.
      and_then (install_dependencies e t otherAnswers) (\<lambda>_.
      and_then (git_init e t) (\<lambda>_.
      summary n otherAnswers)))))))))"
    by (simp add: action_def Let_def t_def b_def)
  from assms obtain es1 where 1: "check_existing e n t = Next es1 ()"
    unfolding A by (cases "check_existing e n t") auto
  from assms have 2: "fs_copy e b t = None"
    unfolding A 1 by (cases "fs_copy e b t") (auto simp: copy_boilerplate_unfold)
  from assms have 3: "chdir e t = None"
    unfolding A 1 by (cases "chdir e t") (auto simp: copy_boilerplate_unfold 2 change_directory_unfold)
  from assms obtain evs answers where 4: "prompt (npm_init_questions (path_basename e t)) (replies e) = Next evs answers"
    unfolding A 1
    by (cases "prompt (npm_init_questions (path_basename e t)) (replies e)")
       (auto simp: copy_boilerplate_unfold 2 change_directory_unfold 3 metadata_setup_unfold)
  from assms obtain pj where 5: "read_json e (path_join e t ''package.json'') = Inr pj"
    unfolding A 1
    by (cases "read_json e (path_join e t ''package.json'')")
       (auto simp: copy_boilerplate_unfold 2 change_directory_unfold 3 metadata_setup_unfold 4
          update_manifest_unfold)
  from assms have 6: "write_json e (path_join e t ''package.json'') (object_assign pj answers) = None"
    unfolding A 1
    by (cases "write_json e (path_join e t ''package.json'') (object_assign pj answers)")
       (auto simp: copy_boilerplate_unfold 2 change_directory_unfold 3 metadata_setup_unfold 4
          update_manifest_unfold 5)
  from assms obtain other where 7: "ask install_question (replies e ''installDeps'') = Some other"
    unfolding A 1
    by (cases "ask install_question (replies e ''installDeps'')")
       (auto simp: copy_boilerplate_unfold 2 change_directory_unfold 3 metadata_setup_unfold 4
          update_manifest_unfold 5 6 prompt_single install_question_def)
  have 8: "qname install_question = ''installDeps''"
    by (simp add: install_question_def)
  have "events (action e n) =
       Console_log (Chalk Blue (nl # ''Creating new project: '' @ n @ [nl])) # es1 @
       [Spinner_start (Plain ''Copying boilerplate files...''),
        Fs_copy b t,
        Spinner_succeed (Chalk Green ''Boilerplate copied!''),
        Chdir t,
        Console_log (Chalk Magenta (nl # ''--- Project Metadata Setup ---'')),
        Console_log (Chalk Gray ''This will guide you through setting up package.json.'')] @
       evs @
       [Read_json (path_join e t ''package.json''),
        Write_json (path_join e t ''package.json'') (object_assign pj answers),
        Console_log (Chalk Green ''package.json updated with your details!''),
        Prompted (message install_question)] @
       events (install_dependencies e t [(''installDeps'', other)]) @
       events (git_init e t) @
       events (summary n [(''installDeps'', other)])"
    unfolding A 1
    by (simp add: copy_boilerplate_unfold 2 change_directory_unfold 3 metadata_setup_unfold 4
          update_manifest_unfold 5 6 prompt_single 7 8 install_dependencies_unfold git_init_unfold
          summary_def emit_def)
  with 1 2 3 4 5 6 7 show ?thesis
    unfolding t_def b_def by blast
qed


lemma writes_Prompted [simp]: "writes (map (\<lambda>q. Prompted (f q)) qs) = []"
  by (induction qs) simp_all

lemma writes_prompt: "writes (events (prompt qs rs)) = []"
proof (cases "prompt qs rs")
  case (Next es ans)
  then show ?thesis using prompt_Next[OF Next] by simp
next
  case (Halt es h)
  then show ?thesis using prompt_Halt[OF Halt] by auto
qed

lemma writes_check_existing: "writes (events (check_existing e n t)) = []"
  by (simp add: check_existing_unfold split: option.splits)

lemma writes_install: "writes (events (install_dependencies e t other)) = []"
  by (simp add: install_dependencies_unfold split: option.splits)

lemma writes_git: "writes (events (git_init e t)) = []"
  by (simp add: git_init_unfold split: option.splits)

lemma writes_summary: "writes (events (summary n other)) = []"
  by (simp add: summary_def emit_def success_banner_def install_hint_def)

lemma map_of_object_assign:
  "map_of (object_assign target source) = map_of target ++ map_of (rev source)"
  unfolding object_assign_def
proof (induction source arbitrary: target)
  case Nil
  then show ?case by simp
next
  case (Cons kv source)
  obtain k v where kv: "kv = (k, v)" by (cases kv)
  show ?case
    by (rule ext) (simp add: kv Cons.IH map_of_set_property map_add_def split: option.splits)
qed

lemma filter_object_assign:
  "fst ` set source \<subseteq> K \<Longrightarrow>
   [kv \<leftarrow> object_assign target source. fst kv \<notin> K] = [kv \<leftarrow> target. fst kv \<notin> K]"
  unfolding object_assign_def
  by (induction source arbitrary: target) (auto simp: filter_set_property)

lemma action_completed_writes:
  assumes "completed (action e n)"
  shows "\<exists>evs answers pj.
     prompt (npm_init_questions (path_basename e (target_dir e n))) (replies e) = Next evs answers \<and>
     read_json e (path_join e (target_dir e n) ''package.json'') = Inr pj \<and>
     writes (events (action e n)) =
       [(path_join e (target_dir e n) ''package.json'', object_assign pj answers)]"
proof -
  from action_completedD[OF assms] obtain es1 evs answers pj other where
    c: "check_existing e n (target_dir e n) = Next es1 ()" and
    p: "prompt (npm_init_questions (path_basename e (target_dir e n))) (replies e) = Next evs answers" and
    r: "read_json e (path_join e (target_dir e n) ''package.json'') = Inr pj" and
    ev: "events (action e n) =
       Console_log (Chalk Blue (nl # ''Creating new project: '' @ n @ [nl])) # es1 @
       [Spinner_start (Plain ''Copying boilerplate files...''),
        Fs_copy (path_join e (dirname e) ''boilerplate'') (target_dir e n),
        Spinner_succeed (Chalk Green ''Boilerplate copied!''),
        Chdir (target_dir e n),
        Console_log (Chalk Magenta (nl # ''--- Project Metadata Setup ---'')),
        Console_log (Chalk Gray ''This will guide you through setting up package.json.'')] @
       evs @
       [Read_json (path_join e (target_dir e n) ''package.json''),
        Write_json (path_join e (target_dir e n) ''package.json'') (object_assign pj answers),
        Console_log (Chalk Green ''package.json updated with your details!''),
        Prompted (message install_question)] @
       events (install_dependencies e (target_dir e n) [(''installDeps'', other)]) @
       events (git_init e (target_dir e n)) @
       events (summary n [(''installDeps'', other)])"
    by blast
  have w1: "writes es1 = []" using writes_check_existing[of e n "target_dir e n"] c by simp
  have w2: "writes evs = []" using writes_prompt[of "npm_init_questions (path_basename e (target_dir e n))" "replies e"] p by simp
  have "writes (events (action e n)) =
       [(path_join e (target_dir e n) ''package.json'', object_assign pj answers)]"
    unfolding ev by (simp add: w1 w2 writes_install writes_git writes_summary)
  with p r show ?thesis by blast
qed

lemma six_names:
  "map qname (npm_init_questions base) =
     [''name'', ''description'', ''version'', ''author'', ''license'', ''main'']"
  by (simp add: npm_init_questions_def)

lemma get_merged_answer:
  assumes "prompt (npm_init_questions base) rs = Next evs answers"
    and "q \<in> set (npm_init_questions base)"
  shows "\<exists>a. ask q (rs (qname q)) = Some a \<and>
     get_property answers (qname q) = Some a \<and>
     get_property (object_assign pj answers) (qname q) = Some a"
proof -
  from prompt_Next[OF assms(1)] have
    all: "\<forall>q \<in> set (npm_init_questions base). ask q (rs (qname q)) \<noteq> None" and
    ans: "answers = map (\<lambda>q. (qname q, the (ask q (rs (qname q))))) (npm_init_questions base)"
    by blast+
  from all assms(2) obtain a where a: "ask q (rs (qname q)) = Some a" by blast
  have d: "distinct (map fst answers)"
    unfolding ans by (simp add: npm_init_questions_def)
  have "(qname q, a) \<in> set answers"
    unfolding ans using assms(2) a by force
  with d have m: "map_of answers (qname q) = Some a" by simp
  from d have "distinct (map fst (rev answers))" by (simp add: rev_map[symmetric])
  moreover have "(qname q, a) \<in> set (rev answers)" using \<open>(qname q, a) \<in> set answers\<close> by simp
  ultimately have "map_of (rev answers) (qname q) = Some a" by (rule map_of_is_SomeI)
  then have "get_property (object_assign pj answers) (qname q) = Some a"
    by (simp add: get_property_def map_of_object_assign)
  with a m show ?thesis by (simp add: get_property_def)
qed

subsection \<open>The written manifest\<close>

text \<open>
  Claim C1. After a run that reaches the end of the handler there is exactly one
  \<^verbatim>\<open>fs.writeJson\<close> call, and in the object it writes each of the six fields \<open>name\<close>,
  \<open>description\<close>, \<open>version\<close>, \<open>author\<close>, \<open>license\<close>, \<open>main\<close> holds exactly the answer the
  prompt of that name accepted from the operator (the provided text or choice, or the
  default when it was accepted unchanged).
\<close>

theorem manifest_fields_equal_answers:
  assumes "completed (action e n)"
  shows "\<exists>p written.
     writes (events (action e n)) = [(p, written)] \<and>
     map qname (npm_init_questions (path_basename e (target_dir e n))) =
       [''name'', ''description'', ''version'', ''author'', ''license'', ''main''] \<and>
     (\<forall>q \<in> set (npm_init_questions (path_basename e (target_dir e n))).
        \<exists>a. ask q (replies e (qname q)) = Some a \<and> get_property written (qname q) = Some a)"
proof -
  from action_completed_writes[OF assms] obtain evs answers pj where
    p: "prompt (npm_init_questions (path_basename e (target_dir e n))) (replies e) = Next evs answers" and
    w: "writes (events (action e n)) =
       [(path_join e (target_dir e n) ''package.json'', object_assign pj answers)]"
    by blast
  have "\<forall>q \<in> set (npm_init_questions (path_basename e (target_dir e n))).
        \<exists>a. ask q (replies e (qname q)) = Some a \<and>
          get_property (object_assign pj answers) (qname q) = Some a"
    using get_merged_answer[OF p] by blast
  with w six_names show ?thesis by blast
qed

theorem manifest_fields_equal_answers_witness:
  "completed (action sample_env ''demo'') \<and>
   (\<exists>p written.
      writes (events (action sample_env ''demo'')) = [(p, written)] \<and>
      get_property written ''name'' = Some (JStr ''demo-api'') \<and>
      get_property written ''description'' = Some (JStr ''A demo'') \<and>
      get_property written ''version'' = Some (JStr ''1.0.0'') \<and>
      get_property written ''author'' = Some (JStr '''') \<and>
      get_property written ''license'' = Some (JStr ''MIT'') \<and>
      get_property written ''main'' = Some (JStr ''index.js''))"
proof -
  have h: "completed (action sample_env ''demo'')"
    by code_simp
  from manifest_fields_equal_answers[OF h] obtain p written where
    w: "writes (events (action sample_env ''demo'')) = [(p, written)]" and
    f: "\<forall>q \<in> set (npm_init_questions (path_basename sample_env (target_dir sample_env ''demo''))).
        \<exists>a. ask q (replies sample_env (qname q)) = Some a \<and> get_property written (qname q) = Some a"
    by blast
  from f have
    "get_property written ''name'' = Some (JStr ''demo-api'') \<and>
     get_property written ''description'' = Some (JStr ''A demo'') \<and>
     get_property written ''version'' = Some (JStr ''1.0.0'') \<and>
     get_property written ''author'' = Some (JStr '''') \<and>
     get_property written ''license'' = Some (JStr ''MIT'') \<and>
     get_property written ''main'' = Some (JStr ''index.js'')"
    by (simp add: npm_init_questions_def sample_env_def validated_def validate_name_def)
  with h w show ?thesis by blast
qed

lemma map_of_rev_distinct:
  assumes "distinct (map fst xs)"
  shows "map_of (rev xs) = map_of xs"
proof (rule ext)
  fix k
  from assms have d: "distinct (map fst (rev xs))" by (simp add: rev_map[symmetric])
  show "map_of (rev xs) k = map_of xs k"
  proof (cases "map_of xs k")
    case None
    then have "k \<notin> fst ` set xs" by (simp add: map_of_eq_None_iff)
    then have "map_of (rev xs) k = None" by (simp add: map_of_eq_None_iff)
    with None show ?thesis by simp
  next
    case (Some v)
    then have "(k, v) \<in> set (rev xs)" by (auto dest: map_of_SomeD)
    with d have "map_of (rev xs) k = Some v" by (rule map_of_is_SomeI)
    with Some show ?thesis by simp
  qed
qed

lemma get_property_object_assign:
  assumes "distinct (map fst source)"
  shows "get_property (object_assign target source) k =
     (if k \<in> fst ` set source then get_property source k else get_property target k)"
proof (cases "map_of source k")
  case None
  then have "k \<notin> fst ` set source" by (simp add: map_of_eq_None_iff)
  with None show ?thesis
    by (simp add: get_property_def map_of_object_assign map_of_rev_distinct[OF assms] map_add_def)
next
  case (Some v)
  then have "k \<in> fst ` set source" by (metis map_of_eq_None_iff option.distinct(1))
  with Some show ?thesis
    by (simp add: get_property_def map_of_object_assign map_of_rev_distinct[OF assms] map_add_def)
qed

text \<open>
  Claim C2. The merge is shallow and the collected fields win: in the object written by
  a completed run, each of the six keys holds the collected answer, whatever the copied
  manifest held under it, and every other key holds what the copied manifest held; the
  entries under other keys are the manifest's own, in the same order.
\<close>

theorem manifest_merge_keeps_other_fields:
  assumes "completed (action e n)"
  shows "\<exists>p packageJson evs answers written.
     read_json e p = Inr packageJson \<and>
     prompt (npm_init_questions (path_basename e (target_dir e n))) (replies e) = Next evs answers \<and>
     map fst answers = [''name'', ''description'', ''version'', ''author'', ''license'', ''main''] \<and>
     writes (events (action e n)) = [(p, written)] \<and>
     written = object_assign packageJson answers \<and>
     (\<forall>k. get_property written k =
        (if k \<in> {''name'', ''description'', ''version'', ''author'', ''license'', ''main''}
         then get_property answers k else get_property packageJson k)) \<and>
     [kv \<leftarrow> written.
        fst kv \<notin> {''name'', ''description'', ''version'', ''author'', ''license'', ''main''}] =
     [kv \<leftarrow> packageJson.
        fst kv \<notin> {''name'', ''description'', ''version'', ''author'', ''license'', ''main''}]"
proof -
  from action_completed_writes[OF assms] obtain evs answers pj where
    p: "prompt (npm_init_questions (path_basename e (target_dir e n))) (replies e) = Next evs answers" and
    r: "read_json e (path_join e (target_dir e n) ''package.json'') = Inr pj" and
    w: "writes (events (action e n)) =
       [(path_join e (target_dir e n) ''package.json'', object_assign pj answers)]"
    by blast
  from prompt_Next[OF p] have
    "map fst answers = map qname (npm_init_questions (path_basename e (target_dir e n)))"
    by blast
  then have keys: "map fst answers =
      [''name'', ''description'', ''version'', ''author'', ''license'', ''main'']"
    by (simp add: six_names)
  have d: "distinct (map fst answers)"
    unfolding keys by simp
  have s: "fst ` set answers = {''name'', ''description'', ''version'', ''author'', ''license'', ''main''}"
    using arg_cong[OF keys, of set] by simp
  have g: "\<forall>k. get_property (object_assign pj answers) k =
        (if k \<in> {''name'', ''description'', ''version'', ''author'', ''license'', ''main''}
         then get_property answers k else get_property pj k)"
    using get_property_object_assign[OF d, of pj] unfolding s by blast
  have f: "[kv \<leftarrow> object_assign pj answers.
        fst kv \<notin> {''name'', ''description'', ''version'', ''author'', ''license'', ''main''}] =
     [kv \<leftarrow> pj.
        fst kv \<notin> {''name'', ''description'', ''version'', ''author'', ''license'', ''main''}]"
    by (rule filter_object_assign) (simp add: s)
  show ?thesis
    by (intro exI conjI) (rule r p keys w refl g f)+
qed

theorem manifest_merge_keeps_other_fields_witness:
  "completed (action sample_env ''demo'') \<and>
   (\<exists>p written.
      writes (events (action sample_env ''demo'')) = [(p, written)] \<and>
      get_property sample_manifest ''license'' = Some (JStr ''GPL-3.0'') \<and>
      get_property written ''license'' = Some (JStr ''MIT'') \<and>
      get_property written ''type'' = Some (JStr ''module'') \<and>
      get_property written ''scripts'' = Some (JObj [(''dev'', JStr ''nodemon src/index.js'')]) \<and>
      get_property written ''private'' = None)"
proof -
  have h: "completed (action sample_env ''demo'')"
    by code_simp
  have q: "prompt (npm_init_questions (path_basename sample_env (target_dir sample_env ''demo'')))
      (replies sample_env) =
    Next (map Prompted [''package name:'', ''description:'', ''version:'', ''author:'',
            ''license:'', ''entry point:''])
      [(''name'', JStr ''demo-api''), (''description'', JStr ''A demo''),
       (''version'', JStr ''1.0.0''), (''author'', JStr ''''), (''license'', JStr ''MIT''),
       (''main'', JStr ''index.js'')]"
    by code_simp
  from manifest_merge_keeps_other_fields[OF h] obtain p packageJson evs answers written where
    r: "read_json sample_env p = Inr packageJson" and
    a: "prompt (npm_init_questions (path_basename sample_env (target_dir sample_env ''demo'')))
      (replies sample_env) = Next evs answers" and
    w: "writes (events (action sample_env ''demo'')) = [(p, written)]" and
    g: "\<forall>k. get_property written k =
        (if k \<in> {''name'', ''description'', ''version'', ''author'', ''license'', ''main''}
         then get_property answers k else get_property packageJson k)"
    by blast
  from r have pj: "packageJson = sample_manifest"
    by (simp add: sample_env_def)
  from a q have ans: "answers = [(''name'', JStr ''demo-api''), (''description'', JStr ''A demo''),
       (''version'', JStr ''1.0.0''), (''author'', JStr ''''), (''license'', JStr ''MIT''),
       (''main'', JStr ''index.js'')]"
    by simp
  from g have "get_property written ''license'' = get_property answers ''license''"
    and "get_property written ''type'' = get_property packageJson ''type''"
    and "get_property written ''scripts'' = get_property packageJson ''scripts''"
    and "get_property written ''private'' = get_property packageJson ''private''"
    by simp_all
  then have "get_property sample_manifest ''license'' = Some (JStr ''GPL-3.0'') \<and>
      get_property written ''license'' = Some (JStr ''MIT'') \<and>
      get_property written ''type'' = Some (JStr ''module'') \<and>
      get_property written ''scripts'' = Some (JObj [(''dev'', JStr ''nodemon src/index.js'')]) \<and>
      get_property written ''private'' = None"
    by (simp add: pj ans get_property_def sample_manifest_def)
  with h w show ?thesis by blast
qed

lemma action_chain:
  "action e n =
    prepend [Console_log (Chalk Blue (nl # ''Creating new project: '' @ n @ [nl]))]
     (and_then (check_existing e n (target_dir e n)) (\<lambda>_.
      and_then (copy_boilerplate e (path_join e (dirname e) ''boilerplate'') (target_dir e n)) (\<lambda>_.
      and_then (change_directory e (target_dir e n)) (\<lambda>_.
      and_then (metadata_setup e (target_dir e n)) (\<lambda>npmInitAnswers.
      and_then (update_manifest e (target_dir e n) npmInitAnswers) (\<lambda>_.
      and_then (prompt [install_question] (replies e)) (\<lambda>otherAnswers.
      and_then (install_dependencies e (target_dir e n) otherAnswers) (\<lambda>_.
      and_then (git_init e (target_dir e n)) (\<lambda>_.
      summary n otherAnswers)))))))))"
  by (simp add: action_def Let_def)

lemma writes_events_and_then:
  "writes (events (and_then m f)) =
     writes (events m) @ (case m of Next es x \<Rightarrow> writes (events (f x)) | Halt es h \<Rightarrow> [])"
  by (cases m) simp_all

lemma writes_copy: "writes (events (copy_boilerplate e b t)) = []"
  by (simp add: copy_boilerplate_unfold split: option.splits)

lemma writes_chdir: "writes (events (change_directory e t)) = []"
  by (simp add: change_directory_unfold split: option.splits)

lemma writes_metadata: "writes (events (metadata_setup e t)) = []"
  by (simp add: metadata_setup_unfold writes_prompt)

lemma metadata_setup_Next:
  "metadata_setup e t = Next es answers \<Longrightarrow>
     \<exists>evs. prompt (npm_init_questions (path_basename e t)) (replies e) = Next evs answers"
  by (cases "prompt (npm_init_questions (path_basename e t)) (replies e)")
     (simp_all add: metadata_setup_unfold)

lemma writes_update_manifest:
  "writes (events (update_manifest e t answers)) =
     (case read_json e (path_join e t ''package.json'') of
        Inl msg \<Rightarrow> []
      | Inr pj \<Rightarrow> [(path_join e t ''package.json'', object_assign pj answers)])"
  by (simp add: update_manifest_unfold split: sum.splits option.splits)

lemma writes_tail:
  "writes (events (and_then (prompt [install_question] rs) (\<lambda>otherAnswers.
      and_then (install_dependencies e t otherAnswers) (\<lambda>_.
      and_then (git_init e t) (\<lambda>_.
      summary n otherAnswers))))) = []"
  by (simp add: writes_events_and_then writes_prompt writes_install writes_git writes_summary
        del: prompt.simps split: step.splits)

lemma action_writes:
  assumes "(p, w) \<in> set (writes (events (action e n)))"
  shows "\<exists>evs answers pj.
     prompt (npm_init_questions (path_basename e (target_dir e n))) (replies e) = Next evs answers \<and>
     read_json e (path_join e (target_dir e n) ''package.json'') = Inr pj \<and>
     p = path_join e (target_dir e n) ''package.json'' \<and>
     w = object_assign pj answers"
proof -
  define t where "t = target_dir e n"
  define b where "b = path_join e (dirname e) ''boilerplate''"
  note A = action_chain[of e n, folded t_def b_def]
  from assms obtain es1 where 1: "check_existing e n t = Next es1 ()"
    unfolding A using writes_check_existing[of e n t]
    by (cases "check_existing e n t") auto
  from assms obtain es2 where 2: "copy_boilerplate e b t = Next es2 ()"
    unfolding A 1 using writes_check_existing[of e n t] writes_copy[of e b t]
    by (cases "copy_boilerplate e b t") (auto simp: 1)
  from assms obtain es3 where 3: "change_directory e t = Next es3 ()"
    unfolding A 1 using writes_check_existing[of e n t] writes_copy[of e b t] writes_chdir[of e t]
    by (cases "change_directory e t") (auto simp: 1 2)
  from assms obtain es answers where 4: "metadata_setup e t = Next es answers"
    unfolding A 1 using writes_check_existing[of e n t] writes_copy[of e b t] writes_chdir[of e t]
      writes_metadata[of e t]
    by (cases "metadata_setup e t") (auto simp: 1 2 3)
  have "writes (events (action e n)) = writes (events (update_manifest e t answers))"
    unfolding A 1 using writes_check_existing[of e n t] writes_copy[of e b t] writes_chdir[of e t]
      writes_metadata[of e t] writes_tail[of "replies e" e t n]
    by (cases "update_manifest e t answers") (simp_all add: 1 2 3 4 del: prompt.simps)
  with assms 4 have m: "metadata_setup e (target_dir e n) = Next es answers" and
    u: "(p, w) \<in> set (writes (events (update_manifest e (target_dir e n) answers)))"
    by (simp_all add: t_def)
  from metadata_setup_Next[OF m] obtain evs where
    q: "prompt (npm_init_questions (path_basename e (target_dir e n))) (replies e) = Next evs answers"
    by blast
  from u obtain pj where
    "read_json e (path_join e (target_dir e n) ''package.json'') = Inr pj"
    "p = path_join e (target_dir e n) ''package.json''" "w = object_assign pj answers"
    by (cases "read_json e (path_join e (target_dir e n) ''package.json'')")
       (auto simp: writes_update_manifest)
  with q show ?thesis by blast
qed

lemma ask_list_choice:
  "ask (List_choice n m cs d) rs = Some a \<Longrightarrow> a = JStr d \<or> (\<exists>i<length cs. a = JStr (cs ! i))"
proof (induction rs)
  case Nil
  then show ?case by simp
next
  case (Cons r rs)
  then show ?case
    by (cases r) (auto split: if_splits)
qed

text \<open>
  Claim C3. Whenever the handler calls \<^verbatim>\<open>fs.writeJson\<close>, the \<open>license\<close> field of the object
  it writes is one of the list prompt's choices \<open>ISC\<close>, \<open>MIT\<close>, \<open>UNLICENSED\<close>. The license
  prompt only ever yields one of these, its default is \<open>ISC\<close>, and that is the choice at
  the first position.
\<close>

theorem written_license_is_allowed:
  "(\<forall>p written. (p, written) \<in> set (writes (events (action e n))) \<longrightarrow>
      (\<exists>l \<in> set [''ISC'', ''MIT'', ''UNLICENSED''].
         get_property written ''license'' = Some (JStr l))) \<and>
   (\<forall>q \<in> set (npm_init_questions base). qname q = ''license'' \<longrightarrow>
      accept q Enter = Some (JStr ''ISC'') \<and>
      accept q Enter = accept q (Chosen 0) \<and>
      (\<forall>r a. accept q r = Some a \<longrightarrow> a \<in> JStr ` set [''ISC'', ''MIT'', ''UNLICENSED'']))"
proof (intro conjI allI impI ballI)
  fix p written
  assume "(p, written) \<in> set (writes (events (action e n)))"
  from action_writes[OF this] obtain evs answers pj where
    q: "prompt (npm_init_questions (path_basename e (target_dir e n))) (replies e) = Next evs answers" and
    w: "written = object_assign pj answers"
    by blast
  have "List_choice ''license'' ''license:'' [''ISC'', ''MIT'', ''UNLICENSED''] ''ISC''
      \<in> set (npm_init_questions (path_basename e (target_dir e n)))"
    by (simp add: npm_init_questions_def)
  from get_merged_answer[OF q this, of pj] obtain a where
    a: "ask (List_choice ''license'' ''license:'' [''ISC'', ''MIT'', ''UNLICENSED''] ''ISC'')
          (replies e ''license'') = Some a" and
    g: "get_property written ''license'' = Some a"
    unfolding w by auto
  from ask_list_choice[OF a] have "a \<in> JStr ` set [''ISC'', ''MIT'', ''UNLICENSED'']"
    by (auto simp: less_Suc_eq)
  with g show "\<exists>l \<in> set [''ISC'', ''MIT'', ''UNLICENSED''].
         get_property written ''license'' = Some (JStr l)"
    by auto
next
  fix q assume "q \<in> set (npm_init_questions base)" "qname q = ''license''"
  then have q: "q = List_choice ''license'' ''license:'' [''ISC'', ''MIT'', ''UNLICENSED''] ''ISC''"
    by (auto simp: npm_init_questions_def)
  show "accept q Enter = Some (JStr ''ISC'')" by (simp add: q)
  show "accept q Enter = accept q (Chosen 0)" by (simp add: q)
  fix r a assume "accept q r = Some a"
  then show "a \<in> JStr ` set [''ISC'', ''MIT'', ''UNLICENSED'']"
    unfolding q by (cases r) (auto split: if_splits simp: less_Suc_eq)
qed

theorem written_license_is_allowed_witness:
  "(\<exists>p written. (p, written) \<in> set (writes (events (action write_fails_env ''demo''))) \<and>
      get_property written ''license'' = Some (JStr ''UNLICENSED'')) \<and>
   accept (List_choice ''license'' ''license:'' [''ISC'', ''MIT'', ''UNLICENSED''] ''ISC'') (Chosen 7) = None"
proof -
  have w: "writes (events (action write_fails_env ''demo'')) =
    [(''/home/op/demo/package.json'',
      [(''name'', JStr ''demo''), (''version'', JStr ''1.0.0''), (''type'', JStr ''module''),
       (''scripts'', JObj [(''dev'', JStr ''nodemon src/index.js'')]),
       (''license'', JStr ''UNLICENSED''),
       (''description'', JStr ''Boilerplate for JavaScript backend application''),
       (''author'', JStr ''''), (''main'', JStr ''index.js'')])]"
    by code_simp
  then obtain p written where m: "(p, written) \<in> set (writes (events (action write_fails_env ''demo'')))"
    by auto
  with written_license_is_allowed[of write_fails_env "''demo''" "''demo''"]
  obtain l where "l \<in> set [''ISC'', ''MIT'', ''UNLICENSED'']" "get_property written ''license'' = Some (JStr l)"
    by blast
  moreover from m w have "get_property written ''license'' = Some (JStr ''UNLICENSED'')"
    by (auto simp: get_property_def)
  ultimately show ?thesis using m by auto
qed

subsection \<open>Exit status\<close>

lemma tail_completed:
  "completed (and_then (install_dependencies e t other) (\<lambda>_.
      and_then (git_init e t) (\<lambda>_. summary n other)))"
  by (simp add: install_dependencies_unfold git_init_unfold summary_def emit_def)

lemma exit_code_tail:
  "exit_code (and_then (install_dependencies e t other) (\<lambda>_.
      and_then (git_init e t) (\<lambda>_. summary n other))) = Some 0"
  by (simp add: install_dependencies_unfold git_init_unfold summary_def emit_def)

lemma exit_code_Halt:
  "exit_code (Halt es h) = (case h of Exited c \<Rightarrow> Some c | Unhandled msg \<Rightarrow> None | Waiting \<Rightarrow> None)"
  by (cases h) simp_all

lemma exit_code_and_then_cong:
  "(\<And>x. exit_code (f x) = exit_code (g x)) \<Longrightarrow>
   exit_code (and_then m f) = exit_code (and_then m g)"
  by (cases m) (simp_all add: exit_code_Halt)

lemma exit_code_and_then_ok:
  "(\<And>x. exit_code (f x) = Some 0) \<Longrightarrow> exit_code (and_then m f) = exit_code m"
  by (cases m) (simp_all add: exit_code_Halt)

lemma exit_code_action:
  "exit_code (action e n) =
     exit_code
       (and_then (check_existing e n (target_dir e n)) (\<lambda>_.
        and_then (copy_boilerplate e (path_join e (dirname e) ''boilerplate'') (target_dir e n)) (\<lambda>_.
        and_then (change_directory e (target_dir e n)) (\<lambda>_.
        and_then (metadata_setup e (target_dir e n)) (\<lambda>npmInitAnswers.
        and_then (update_manifest e (target_dir e n) npmInitAnswers) (\<lambda>_.
        prompt [install_question] (replies e)))))))"
  apply (simp only: action_chain exit_code_prepend)
  apply (intro exit_code_and_then_cong)
  apply (rule exit_code_and_then_ok)
  apply (rule exit_code_tail)
  done

lemma exit_code_execa:
  "exit_code (action (e\<lparr>execa := x\<rparr>) n) = exit_code (action e n)"
  unfolding exit_code_action
  by (simp add: target_dir_def check_existing_def copy_boilerplate_def change_directory_def
        metadata_setup_def update_manifest_def del: prompt.simps
        cong: if_cong option.case_cong sum.case_cong)


lemma action_declined:
  assumes "exists_sync e (target_dir e n)"
    and "ask (overwrite_question n) (replies e ''overwrite'') = Some (JBool False)"
  shows "action e n =
     Halt [Console_log (Chalk Blue (nl # ''Creating new project: '' @ n @ [nl])),
           Prompted (message (overwrite_question n)),
           Console_log (Chalk Yellow ''Aborting project creation.'')] (Exited 0)"
  using assms by (simp add: action_chain check_existing_unfold)

lemma action_remove_fails:
  assumes "exists_sync e (target_dir e n)"
    and "ask (overwrite_question n) (replies e ''overwrite'') = Some (JBool True)"
    and "fs_remove e (target_dir e n) = Some msg"
  shows "action e n =
     Halt [Console_log (Chalk Blue (nl # ''Creating new project: '' @ n @ [nl])),
           Prompted (message (overwrite_question n)),
           Spinner_start (Chalk Yellow ''Removing existing directory...''),
           Fs_remove (target_dir e n),
           Spinner_fail (Chalk Red ''Failed to remove existing directory.''),
           Console_error (Chalk Red msg)] (Exited 1)"
  using assms by (simp add: action_chain check_existing_unfold)

lemma action_copy_fails:
  assumes "check_existing e n (target_dir e n) = Next es ()"
    and "fs_copy e (path_join e (dirname e) ''boilerplate'') (target_dir e n) = Some msg"
  shows "action e n =
     Halt (Console_log (Chalk Blue (nl # ''Creating new project: '' @ n @ [nl])) # es @
           [Spinner_start (Plain ''Copying boilerplate files...''),
            Fs_copy (path_join e (dirname e) ''boilerplate'') (target_dir e n),
            Spinner_fail (Chalk Red ''Error copying boilerplate!''),
            Console_error (Chalk Red msg)]) (Exited 1)"
  using assms by (simp add: action_chain copy_boilerplate_unfold)

lemma action_completes:
  assumes "\<not> exists_sync e (target_dir e n) \<or>
     ask (overwrite_question n) (replies e ''overwrite'') = Some (JBool True) \<and>
     fs_remove e (target_dir e n) = None"
    and "fs_copy e (path_join e (dirname e) ''boilerplate'') (target_dir e n) = None"
    and "chdir e (target_dir e n) = None"
    and "\<forall>q \<in> set (npm_init_questions (path_basename e (target_dir e n))).
           ask q (replies e (qname q)) \<noteq> None"
    and "read_json e (path_join e (target_dir e n) ''package.json'') = Inr pj"
    and "\<forall>obj. write_json e (path_join e (target_dir e n) ''package.json'') obj = None"
    and "ask install_question (replies e ''installDeps'') \<noteq> None"
  shows "completed (action e n)"
proof -
  from assms(1) have "\<exists>es. check_existing e n (target_dir e n) = Next es ()"
    by (cases "exists_sync e (target_dir e n)") (auto simp: check_existing_unfold)
  then obtain es where 1: "check_existing e n (target_dir e n) = Next es ()" ..
  from assms(7) obtain a where 7: "ask install_question (replies e ''installDeps'') = Some a"
    by auto
  have q: "qname install_question = ''installDeps''"
    by (simp add: install_question_def)
  show ?thesis
    unfolding action_chain
    by (simp add: 1 copy_boilerplate_unfold assms(2) change_directory_unfold assms(3)
          metadata_setup_unfold prompt_total[OF assms(4)] update_manifest_unfold assms(5) assms(6)
          prompt_single q 7 tail_completed del: prompt.simps)
qed

text \<open>
  Claim C4. The exit status is 0 when the handler runs to its end, which it does
  whenever the directory check, the copy, the change of directory, the prompts and the
  manifest input and output succeed, and when the operator declines the overwrite; it is 1 when the removal of the existing target
  directory throws and when the copy of the boilerplate throws; and it does not depend
  on the results of the two subprocesses (\<^verbatim>\<open>npm install\<close>, \<^verbatim>\<open>git init\<close>), whatever they are.
\<close>

theorem exit_codes:
  "(completed (action e n) \<longrightarrow> exit_code (action e n) = Some 0) \<and>
   ((\<not> exists_sync e (target_dir e n) \<or>
     ask (overwrite_question n) (replies e ''overwrite'') = Some (JBool True) \<and>
     fs_remove e (target_dir e n) = None) \<and>
    fs_copy e (path_join e (dirname e) ''boilerplate'') (target_dir e n) = None \<and>
    chdir e (target_dir e n) = None \<and>
    (\<forall>q \<in> set (npm_init_questions (path_basename e (target_dir e n))).
       ask q (replies e (qname q)) \<noteq> None) \<and>
    (\<exists>pj. read_json e (path_join e (target_dir e n) ''package.json'') = Inr pj) \<and>
    (\<forall>obj. write_json e (path_join e (target_dir e n) ''package.json'') obj = None) \<and>
    ask install_question (replies e ''installDeps'') \<noteq> None \<longrightarrow>
      completed (action e n)) \<and>
   (exists_sync e (target_dir e n) \<and>
    ask (overwrite_question n) (replies e ''overwrite'') = Some (JBool False) \<longrightarrow>
      exit_code (action e n) = Some 0) \<and>
   (exists_sync e (target_dir e n) \<and>
    ask (overwrite_question n) (replies e ''overwrite'') = Some (JBool True) \<and>
    fs_remove e (target_dir e n) \<noteq> None \<longrightarrow>
      exit_code (action e n) = Some 1) \<and>
   ((\<not> exists_sync e (target_dir e n) \<or>
     ask (overwrite_question n) (replies e ''overwrite'') = Some (JBool True) \<and>
     fs_remove e (target_dir e n) = None) \<and>
    fs_copy e (path_join e (dirname e) ''boilerplate'') (target_dir e n) \<noteq> None \<longrightarrow>
      exit_code (action e n) = Some 1) \<and>
   (\<forall>x. exit_code (action (e\<lparr>execa := x\<rparr>) n) = exit_code (action e n))"
proof (intro conjI impI allI)
  assume "completed (action e n)"
  then show "exit_code (action e n) = Some 0"
    by (cases "action e n") simp_all
next
  assume a: "(\<not> exists_sync e (target_dir e n) \<or>
     ask (overwrite_question n) (replies e ''overwrite'') = Some (JBool True) \<and>
     fs_remove e (target_dir e n) = None) \<and>
    fs_copy e (path_join e (dirname e) ''boilerplate'') (target_dir e n) = None \<and>
    chdir e (target_dir e n) = None \<and>
    (\<forall>q \<in> set (npm_init_questions (path_basename e (target_dir e n))).
       ask q (replies e (qname q)) \<noteq> None) \<and>
    (\<exists>pj. read_json e (path_join e (target_dir e n) ''package.json'') = Inr pj) \<and>
    (\<forall>obj. write_json e (path_join e (target_dir e n) ''package.json'') obj = None) \<and>
    ask install_question (replies e ''installDeps'') \<noteq> None"
  then obtain pj where "read_json e (path_join e (target_dir e n) ''package.json'') = Inr pj"
    by blast
  with a show "completed (action e n)"
    by (intro action_completes[where pj = pj]) blast+
next
  assume "exists_sync e (target_dir e n) \<and>
    ask (overwrite_question n) (replies e ''overwrite'') = Some (JBool False)"
  then show "exit_code (action e n) = Some 0"
    by (simp add: action_declined)
next
  assume "exists_sync e (target_dir e n) \<and>
    ask (overwrite_question n) (replies e ''overwrite'') = Some (JBool True) \<and>
    fs_remove e (target_dir e n) \<noteq> None"
  then show "exit_code (action e n) = Some 1"
    by (auto simp: action_remove_fails)
next
  assume a: "(\<not> exists_sync e (target_dir e n) \<or>
     ask (overwrite_question n) (replies e ''overwrite'') = Some (JBool True) \<and>
     fs_remove e (target_dir e n) = None) \<and>
    fs_copy e (path_join e (dirname e) ''boilerplate'') (target_dir e n) \<noteq> None"
  then have "\<exists>es. check_existing e n (target_dir e n) = Next es ()"
    by (cases "exists_sync e (target_dir e n)") (auto simp: check_existing_unfold)
  then obtain es where "check_existing e n (target_dir e n) = Next es ()" ..
  moreover from a obtain msg where
    "fs_copy e (path_join e (dirname e) ''boilerplate'') (target_dir e n) = Some msg"
    by auto
  ultimately show "exit_code (action e n) = Some 1"
    by (simp add: action_copy_fails)
next
  fix x show "exit_code (action (e\<lparr>execa := x\<rparr>) n) = exit_code (action e n)"
    by (rule exit_code_execa)
qed

theorem exit_codes_witness:
  "exit_code (action sample_env ''demo'') = Some 0 \<and>
   exit_code (action declined_env ''demo'') = Some 0 \<and>
   exit_code (action remove_fails_env ''demo'') = Some 1 \<and>
   exit_code (action copy_fails_env ''demo'') = Some 1 \<and>
   exit_code (action npm_fails_env ''demo'') = exit_code (action sample_env ''demo'')"
proof -
  have 0: "(\<not> exists_sync sample_env (target_dir sample_env ''demo'') \<or>
     ask (overwrite_question ''demo'') (replies sample_env ''overwrite'') = Some (JBool True) \<and>
     fs_remove sample_env (target_dir sample_env ''demo'') = None) \<and>
    fs_copy sample_env (path_join sample_env (dirname sample_env) ''boilerplate'')
      (target_dir sample_env ''demo'') = None \<and>
    chdir sample_env (target_dir sample_env ''demo'') = None \<and>
    (\<forall>q \<in> set (npm_init_questions (path_basename sample_env (target_dir sample_env ''demo''))).
       ask q (replies sample_env (qname q)) \<noteq> None) \<and>
    (\<exists>pj. read_json sample_env (path_join sample_env (target_dir sample_env ''demo'')
       ''package.json'') = Inr pj) \<and>
    (\<forall>obj. write_json sample_env (path_join sample_env (target_dir sample_env ''demo'')
       ''package.json'') obj = None) \<and>
    ask install_question (replies sample_env ''installDeps'') \<noteq> None"
    by (simp add: sample_env_def npm_init_questions_def validated_def validate_name_def
          install_question_def)
  from exit_codes[of sample_env "''demo''"] 0
  have 1: "completed (action sample_env ''demo'')"
    by blast
  have 2: "exists_sync declined_env (target_dir declined_env ''demo'') \<and>
    ask (overwrite_question ''demo'') (replies declined_env ''overwrite'') = Some (JBool False)"
    by (simp add: declined_env_def sample_env_def overwrite_question_def)
  have 3: "exists_sync remove_fails_env (target_dir remove_fails_env ''demo'') \<and>
    ask (overwrite_question ''demo'') (replies remove_fails_env ''overwrite'') = Some (JBool True) \<and>
    fs_remove remove_fails_env (target_dir remove_fails_env ''demo'') \<noteq> None"
    by (simp add: remove_fails_env_def sample_env_def overwrite_question_def)
  have 4: "(\<not> exists_sync copy_fails_env (target_dir copy_fails_env ''demo'') \<or>
     ask (overwrite_question ''demo'') (replies copy_fails_env ''overwrite'') = Some (JBool True) \<and>
     fs_remove copy_fails_env (target_dir copy_fails_env ''demo'') = None) \<and>
    fs_copy copy_fails_env (path_join copy_fails_env (dirname copy_fails_env) ''boilerplate'')
      (target_dir copy_fails_env ''demo'') \<noteq> None"
    by (simp add: copy_fails_env_def sample_env_def)
  from exit_codes[of sample_env "''demo''"] 1
  have a: "exit_code (action sample_env ''demo'') = Some 0" by blast
  from exit_codes[of declined_env "''demo''"] 2
  have b: "exit_code (action declined_env ''demo'') = Some 0" by blast
  from exit_codes[of remove_fails_env "''demo''"] 3
  have c: "exit_code (action remove_fails_env ''demo'') = Some 1" by blast
  from exit_codes[of copy_fails_env "''demo''"] 4
  have d: "exit_code (action copy_fails_env ''demo'') = Some 1" by blast
  from exit_codes[of sample_env "''demo''"]
  have e: "exit_code (action npm_fails_env ''demo'') = exit_code (action sample_env ''demo'')"
    unfolding npm_fails_env_def by blast
  from a b c d e show ?thesis by blast
qed

text \<open>
  Claim C5. When the target directory exists and the operator declines the overwrite
  confirmation, the run is: the opening line, the confirmation, the line
  \<open>Aborting project creation.\<close>, \<^verbatim>\<open>process.exit(0)\<close>. Nothing is removed, copied, written
  or executed. Accepting the confirmation's default declines.
\<close>

theorem declined_overwrite_changes_nothing:
  assumes "exists_sync e (target_dir e n)"
    and "ask (overwrite_question n) (replies e ''overwrite'') = Some (JBool False)"
  shows "action e n =
     Halt [Console_log (Chalk Blue (nl # ''Creating new project: '' @ n @ [nl])),
           Prompted (message (overwrite_question n)),
           Console_log (Chalk Yellow ''Aborting project creation.'')] (Exited 0) \<and>
     exit_code (action e n) = Some 0 \<and>
     filter is_mutation (events (action e n)) = [] \<and>
     writes (events (action e n)) = [] \<and>
     accept (overwrite_question n) Enter = Some (JBool False)"
  by (simp add: action_declined[OF assms] overwrite_question_def)

theorem declined_overwrite_changes_nothing_witness:
  "exists_sync declined_env (target_dir declined_env ''demo'') \<and>
   ask (overwrite_question ''demo'') (replies declined_env ''overwrite'') = Some (JBool False) \<and>
   action declined_env ''demo'' =
     Halt [Console_log (Chalk Blue (nl # ''Creating new project: demo'' @ [nl])),
           Prompted (''Directory '' @ [dq] @ ''demo'' @ [dq] @ '' already exists. Overwrite?''),
           Console_log (Chalk Yellow ''Aborting project creation.'')] (Exited 0) \<and>
   filter is_mutation (events (action declined_env ''demo'')) = []"
proof -
  have 1: "exists_sync declined_env (target_dir declined_env ''demo'')"
    by (simp add: declined_env_def sample_env_def)
  have 2: "ask (overwrite_question ''demo'') (replies declined_env ''overwrite'') = Some (JBool False)"
    by (simp add: declined_env_def sample_env_def overwrite_question_def)
  from declined_overwrite_changes_nothing[OF 1 2] 1 2 show ?thesis
    by (simp add: overwrite_question_def)
qed

subsection \<open>Dependency installation and the summary\<close>

lemma execs_append [simp]: "execs (xs @ ys) = execs xs @ execs ys"
  by (induction xs rule: execs.induct) simp_all

lemma execs_Prompted [simp]: "execs (map (\<lambda>q. Prompted (f q)) qs) = []"
  by (induction qs) simp_all

lemma execs_prompt: "execs (events (prompt qs rs)) = []"
proof (cases "prompt qs rs")
  case (Next es ans)
  then show ?thesis using prompt_Next[OF Next] by simp
next
  case (Halt es h)
  then show ?thesis using prompt_Halt[OF Halt] by auto
qed

lemma execs_check_existing: "execs (events (check_existing e n t)) = []"
  by (simp add: check_existing_unfold split: option.splits)

lemma execs_copy: "execs (events (copy_boilerplate e b t)) = []"
  by (simp add: copy_boilerplate_unfold split: option.splits)

lemma execs_chdir: "execs (events (change_directory e t)) = []"
  by (simp add: change_directory_unfold split: option.splits)

lemma execs_metadata: "execs (events (metadata_setup e t)) = []"
  by (simp add: metadata_setup_unfold execs_prompt)

lemma execs_update_manifest: "execs (events (update_manifest e t answers)) = []"
  by (simp add: update_manifest_unfold split: sum.splits option.splits)

lemma execs_summary: "execs (events (summary n other)) = []"
  by (simp add: summary_def emit_def success_banner_def install_hint_def)

lemma execs_and_thenD:
  assumes "x \<in> set (execs (events (and_then m f)))" and "execs (events m) = []"
  obtains es y where "m = Next es y" and "x \<in> set (execs (events (f y)))"
  using assms by (cases m) auto

lemma execs_completed:
  assumes "x \<in> set (execs (events (action e n)))"
  shows "completed (action e n)"
proof -
  define t where "t = target_dir e n"
  define b where "b = path_join e (dirname e) ''boilerplate''"
  note A = action_chain[of e n, folded t_def b_def]
  from assms have 0: "x \<in> set (execs (events
     (and_then (check_existing e n t) (\<lambda>_.
      and_then (copy_boilerplate e b t) (\<lambda>_.
      and_then (change_directory e t) (\<lambda>_.
      and_then (metadata_setup e t) (\<lambda>npmInitAnswers.
      and_then (update_manifest e t npmInitAnswers) (\<lambda>_.
      and_then (prompt [install_question] (replies e)) (\<lambda>otherAnswers.
      and_then (install_dependencies e t otherAnswers) (\<lambda>_.
      and_then (git_init e t) (\<lambda>_.
      summary n otherAnswers)))))))))))"
    unfolding A by simp
  from execs_and_thenD[OF 0 execs_check_existing] obtain es1 u1 where
    1: "check_existing e n t = Next es1 u1" and r1: "x \<in> set (execs (events
     (and_then (copy_boilerplate e b t) (\<lambda>_.
      and_then (change_directory e t) (\<lambda>_.
      and_then (metadata_setup e t) (\<lambda>npmInitAnswers.
      and_then (update_manifest e t npmInitAnswers) (\<lambda>_.
      and_then (prompt [install_question] (replies e)) (\<lambda>otherAnswers.
      and_then (install_dependencies e t otherAnswers) (\<lambda>_.
      and_then (git_init e t) (\<lambda>_.
      summary n otherAnswers))))))))))"
    by blast
  from execs_and_thenD[OF r1 execs_copy] obtain es2 u2 where
    2: "copy_boilerplate e b t = Next es2 u2" and r2: "x \<in> set (execs (events
     (and_then (change_directory e t) (\<lambda>_.
      and_then (metadata_setup e t) (\<lambda>npmInitAnswers.
      and_then (update_manifest e t npmInitAnswers) (\<lambda>_.
      and_then (prompt [install_question] (replies e)) (\<lambda>otherAnswers.
      and_then (install_dependencies e t otherAnswers) (\<lambda>_.
      and_then (git_init e t) (\<lambda>_.
      summary n otherAnswers)))))))))"
    by blast
  from execs_and_thenD[OF r2 execs_chdir] obtain es3 u3 where
    3: "change_directory e t = Next es3 u3" and r3: "x \<in> set (execs (events
     (and_then (metadata_setup e t) (\<lambda>npmInitAnswers.
      and_then (update_manifest e t npmInitAnswers) (\<lambda>_.
      and_then (prompt [install_question] (replies e)) (\<lambda>otherAnswers.
      and_then (install_dependencies e t otherAnswers) (\<lambda>_.
      and_then (git_init e t) (\<lambda>_.
      summary n otherAnswers))))))))"
    by blast
  from execs_and_thenD[OF r3 execs_metadata] obtain es4 answers where
    4: "metadata_setup e t = Next es4 answers" and r4: "x \<in> set (execs (events
     (and_then (update_manifest e t answers) (\<lambda>_.
      and_then (prompt [install_question] (replies e)) (\<lambda>otherAnswers.
      and_then (install_dependencies e t otherAnswers) (\<lambda>_.
      and_then (git_init e t) (\<lambda>_.
      summary n otherAnswers)))))))"
    by blast
  from execs_and_thenD[OF r4 execs_update_manifest] obtain es5 u5 where
    5: "update_manifest e t answers = Next es5 u5" and r5: "x \<in> set (execs (events
     (and_then (prompt [install_question] (replies e)) (\<lambda>otherAnswers.
      and_then (install_dependencies e t otherAnswers) (\<lambda>_.
      and_then (git_init e t) (\<lambda>_.
      summary n otherAnswers))))))"
    by blast
  from execs_and_thenD[OF r5 execs_prompt] obtain es6 other where
    6: "prompt [install_question] (replies e) = Next es6 other"
    by blast
  show ?thesis
    unfolding A by (simp add: 1 2 3 4 5 6 tail_completed del: prompt.simps)
qed


lemma ask_confirm:
  "ask (Confirm n m d) rs = Some a \<Longrightarrow> \<exists>b. a = JBool b"
proof (induction rs)
  case Nil
  then show ?case by simp
next
  case (Cons r rs)
  then show ?case by (cases r) auto
qed

lemma ask_install_question:
  "ask install_question rs = Some a \<Longrightarrow> \<exists>b. a = JBool b"
  unfolding install_question_def by (rule ask_confirm)

lemma events_install_declined:
  "events (install_dependencies e t [(''installDeps'', JBool False)]) = []"
  by (simp add: install_dependencies_unfold get_property_def)

lemma events_install_accepted:
  "events (install_dependencies e t [(''installDeps'', JBool True)]) =
     [Spinner_start (Plain ''Installing npm dependencies...''),
      Execa ''npm'' [''install''] t] @
     (case execa e ''npm'' [''install''] t of
        None \<Rightarrow> [Spinner_succeed (Chalk Green ''Dependencies installed!'')]
      | Some msg \<Rightarrow>
          [Spinner_fail (Chalk Red ''Dependency installation failed!''),
           Console_error (Chalk Red msg)])"
  by (simp add: install_dependencies_unfold get_property_def)

lemma events_git_init:
  "events (git_init e t) =
     [Spinner_start (Plain ''Initializing Git repository...''),
      Execa ''git'' [''init''] t] @
     (case execa e ''git'' [''init''] t of
        None \<Rightarrow> [Spinner_succeed (Chalk Green ''Git repository initialized!'')]
      | Some msg \<Rightarrow>
          [Spinner_fail (Chalk Red ''Git initialization failed!''),
           Console_error (Chalk Red msg)])"
  by (simp add: git_init_unfold)

text \<open>
  Claim C6. Whenever \<^verbatim>\<open>npm install\<close> is started and fails, the handler reports the
  failure (the spinner's failure line and the error message), then starts \<^verbatim>\<open>git init\<close>
  in the same directory, prints the completion banner, and runs to its end with exit
  status 0.
\<close>

theorem install_failure_is_not_fatal:
  assumes "(''npm'', [''install''], d) \<in> set (execs (events (action e n)))"
    and "execa e ''npm'' [''install''] d \<noteq> None"
  shows "completed (action e n) \<and> exit_code (action e n) = Some 0 \<and>
     (\<exists>pre post msg.
        execa e ''npm'' [''install''] d = Some msg \<and>
        events (action e n) =
          pre @
          [Spinner_start (Plain ''Installing npm dependencies...''),
           Execa ''npm'' [''install''] d,
           Spinner_fail (Chalk Red ''Dependency installation failed!''),
           Console_error (Chalk Red msg),
           Spinner_start (Plain ''Initializing Git repository...''),
           Execa ''git'' [''init''] d] @
          post \<and>
        execs pre = [] \<and>
        success_banner n \<in> set post)"
proof -
  have c: "completed (action e n)"
    using assms(1) by (rule execs_completed)
  then have x: "exit_code (action e n) = Some 0"
    by (cases "action e n") simp_all
  from assms(2) obtain msg where msg: "execa e ''npm'' [''install''] d = Some msg"
    by auto
  define t where "t = target_dir e n"
  from action_completedD[OF c] obtain es1 evs answers pj other where
    1: "check_existing e n t = Next es1 ()" and
    4: "prompt (npm_init_questions (path_basename e t)) (replies e) = Next evs answers" and
    7: "ask install_question (replies e ''installDeps'') = Some other" and
    ev: "events (action e n) =
       Console_log (Chalk Blue (nl # ''Creating new project: '' @ n @ [nl])) # es1 @
       [Spinner_start (Plain ''Copying boilerplate files...''),
        Fs_copy (path_join e (dirname e) ''boilerplate'') t,
        Spinner_succeed (Chalk Green ''Boilerplate copied!''),
        Chdir t,
        Console_log (Chalk Magenta (nl # ''--- Project Metadata Setup ---'')),
        Console_log (Chalk Gray ''This will guide you through setting up package.json.'')] @
       evs @
       [Read_json (path_join e t ''package.json''),
        Write_json (path_join e t ''package.json'') (object_assign pj answers),
        Console_log (Chalk Green ''package.json updated with your details!''),
        Prompted (message install_question)] @
       events (install_dependencies e t [(''installDeps'', other)]) @
       events (git_init e t) @
       events (summary n [(''installDeps'', other)])"
    unfolding t_def by blast
  define pre where "pre =
       Console_log (Chalk Blue (nl # ''Creating new project: '' @ n @ [nl])) # es1 @
       [Spinner_start (Plain ''Copying boilerplate files...''),
        Fs_copy (path_join e (dirname e) ''boilerplate'') t,
        Spinner_succeed (Chalk Green ''Boilerplate copied!''),
        Chdir t,
        Console_log (Chalk Magenta (nl # ''--- Project Metadata Setup ---'')),
        Console_log (Chalk Gray ''This will guide you through setting up package.json.'')] @
       evs @
       [Read_json (path_join e t ''package.json''),
        Write_json (path_join e t ''package.json'') (object_assign pj answers),
        Console_log (Chalk Green ''package.json updated with your details!''),
        Prompted (message install_question)]"
  have e1: "execs es1 = []" using execs_check_existing[of e n t] 1 by simp
  have e4: "execs evs = []"
    using execs_prompt[of "npm_init_questions (path_basename e t)" "replies e"] 4 by simp
  have p: "execs pre = []" by (simp add: pre_def e1 e4)
  from ask_install_question[OF 7] obtain b where b: "other = JBool b" by blast
  have ev': "events (action e n) = pre @
       events (install_dependencies e t [(''installDeps'', JBool b)]) @
       events (git_init e t) @
       events (summary n [(''installDeps'', JBool b)])"
    unfolding ev pre_def b by simp
  have "b \<and> d = t"
  proof (cases b)
    case True
    with assms(1) show ?thesis
      unfolding ev' by (auto simp: p events_install_accepted events_git_init execs_summary split: option.splits)
  next
    case False
    with assms(1) show ?thesis
      unfolding ev' by (auto simp: p events_install_declined events_git_init execs_summary split: option.splits)
  qed
  then have b': "b" and d: "d = t" by simp_all
  define post where "post =
     (case execa e ''git'' [''init''] t of
        None \<Rightarrow> [Spinner_succeed (Chalk Green ''Git repository initialized!'')]
      | Some msg \<Rightarrow>
          [Spinner_fail (Chalk Red ''Git initialization failed!''),
           Console_error (Chalk Red msg)]) @
     events (summary n [(''installDeps'', JBool b)])"
  have s: "success_banner n \<in> set post"
    by (simp add: post_def summary_def emit_def)
  have "events (action e n) =
          pre @
          [Spinner_start (Plain ''Installing npm dependencies...''),
           Execa ''npm'' [''install''] d,
           Spinner_fail (Chalk Red ''Dependency installation failed!''),
           Console_error (Chalk Red msg),
           Spinner_start (Plain ''Initializing Git repository...''),
           Execa ''git'' [''init''] d] @
          post"
    unfolding ev' post_def using b' msg
    by (simp add: d events_install_accepted events_git_init)
  with c x msg p s show ?thesis by blast
qed

theorem install_failure_is_not_fatal_witness:
  "(''npm'', [''install''], ''/home/op/demo'') \<in> set (execs (events (action npm_fails_env ''demo''))) \<and>
   execa npm_fails_env ''npm'' [''install''] ''/home/op/demo'' \<noteq> None \<and>
   completed (action npm_fails_env ''demo'') \<and>
   exit_code (action npm_fails_env ''demo'') = Some 0 \<and>
   execs (events (action npm_fails_env ''demo'')) =
     [(''npm'', [''install''], ''/home/op/demo''), (''git'', [''init''], ''/home/op/demo'')] \<and>
   Spinner_fail (Chalk Red ''Dependency installation failed!'')
     \<in> set (events (action npm_fails_env ''demo'')) \<and>
   success_banner ''demo'' \<in> set (events (action npm_fails_env ''demo''))"
proof -
  have x: "execs (events (action npm_fails_env ''demo'')) =
     [(''npm'', [''install''], ''/home/op/demo''), (''git'', [''init''], ''/home/op/demo'')]"
    by code_simp
  then have 1: "(''npm'', [''install''], ''/home/op/demo'') \<in> set (execs (events (action npm_fails_env ''demo'')))"
    by simp
  have 2: "execa npm_fails_env ''npm'' [''install''] ''/home/op/demo'' \<noteq> None"
    by (simp add: npm_fails_env_def sample_env_def)
  from install_failure_is_not_fatal[OF 1 2] have
    "completed (action npm_fails_env ''demo'')"
    "exit_code (action npm_fails_env ''demo'') = Some 0"
    "Spinner_fail (Chalk Red ''Dependency installation failed!'')
       \<in> set (events (action npm_fails_env ''demo''))"
    "success_banner ''demo'' \<in> set (events (action npm_fails_env ''demo''))"
    by auto
  with 1 2 x show ?thesis
    by blast
qed


lemma hint_not_Prompted: "install_hint \<notin> set (map (\<lambda>q. Prompted (f q)) qs)"
  by (auto simp: install_hint_def)

lemma hint_not_check_existing: "install_hint \<notin> set (events (check_existing e n t))"
  by (simp add: check_existing_unfold install_hint_def split: option.splits)

lemma hint_not_install: "install_hint \<notin> set (events (install_dependencies e t other))"
  by (simp add: install_dependencies_unfold install_hint_def split: option.splits)

lemma hint_not_git: "install_hint \<notin> set (events (git_init e t))"
  by (simp add: git_init_unfold install_hint_def split: option.splits)

lemma hint_summary:
  "install_hint \<in> set (events (summary n [(''installDeps'', JBool b)])) \<longleftrightarrow> \<not> b"
  by (simp add: summary_def emit_def install_hint_def success_banner_def get_property_def)

lemma completed_hint:
  assumes "completed (action e n)"
  shows "\<exists>b. ask install_question (replies e ''installDeps'') = Some (JBool b) \<and>
     (install_hint \<in> set (events (action e n)) \<longleftrightarrow> \<not> b) \<and>
     execs (events (action e n)) =
       (if b then [(''npm'', [''install''], target_dir e n)] else []) @
       [(''git'', [''init''], target_dir e n)]"
proof -
  define t where "t = target_dir e n"
  from action_completedD[OF assms] obtain es1 evs answers pj other where
    1: "check_existing e n t = Next es1 ()" and
    4: "prompt (npm_init_questions (path_basename e t)) (replies e) = Next evs answers" and
    7: "ask install_question (replies e ''installDeps'') = Some other" and
    ev: "events (action e n) =
       Console_log (Chalk Blue (nl # ''Creating new project: '' @ n @ [nl])) # es1 @
       [Spinner_start (Plain ''Copying boilerplate files...''),
        Fs_copy (path_join e (dirname e) ''boilerplate'') t,
        Spinner_succeed (Chalk Green ''Boilerplate copied!''),
        Chdir t,
        Console_log (Chalk Magenta (nl # ''--- Project Metadata Setup ---'')),
        Console_log (Chalk Gray ''This will guide you through setting up package.json.'')] @
       evs @
       [Read_json (path_join e t ''package.json''),
        Write_json (path_join e t ''package.json'') (object_assign pj answers),
        Console_log (Chalk Green ''package.json updated with your details!''),
        Prompted (message install_question)] @
       events (install_dependencies e t [(''installDeps'', other)]) @
       events (git_init e t) @
       events (summary n [(''installDeps'', other)])"
    unfolding t_def by blast
  from ask_install_question[OF 7] obtain b where b: "other = JBool b" by blast
  have h1: "install_hint \<notin> set es1" using hint_not_check_existing[of e n t] 1 by simp
  have h4: "install_hint \<notin> set evs"
    using prompt_Next[OF 4] hint_not_Prompted[of message] by simp
  have e1: "execs es1 = []" using execs_check_existing[of e n t] 1 by simp
  have e4: "execs evs = []"
    using execs_prompt[of "npm_init_questions (path_basename e t)" "replies e"] 4 by simp
  have fixed: "install_hint \<noteq> Console_log (Chalk Blue (nl # ''Creating new project: '' @ n @ [nl]))"
    "install_hint \<noteq> Console_log (Chalk Magenta (nl # ''--- Project Metadata Setup ---''))"
    "install_hint \<noteq> Console_log (Chalk Gray ''This will guide you through setting up package.json.'')"
    "install_hint \<noteq> Console_log (Chalk Green ''package.json updated with your details!'')"
    by (simp_all add: install_hint_def)
  have "install_hint \<in> set (events (action e n)) \<longleftrightarrow> \<not> b"
    unfolding ev b using h1 h4 fixed hint_not_install[of e t] hint_not_git[of e t] hint_summary[of n b]
    by (auto simp: install_hint_def)
  moreover have "execs (events (action e n)) =
       (if b then [(''npm'', [''install''], t)] else []) @ [(''git'', [''init''], t)]"
    unfolding ev b
    by (cases b)
       (simp_all add: e1 e4 events_install_accepted events_install_declined events_git_init
          execs_summary split: option.splits)
  ultimately show ?thesis using 7 b unfolding t_def by blast
qed

text \<open>
  Claim C10. In a run that reaches the summary, the line \<open>npm install\<close> among the next
  steps is printed exactly when the operator declined the installation; when
  \<^verbatim>\<open>npm install\<close> was started, whether it then succeeded or failed, the line is not
  printed.
\<close>

theorem install_hint_iff_declined:
  assumes "completed (action e n)"
  shows "(install_hint \<in> set (events (action e n)) \<longleftrightarrow>
           ask install_question (replies e ''installDeps'') = Some (JBool False)) \<and>
         (\<forall>d. (''npm'', [''install''], d) \<in> set (execs (events (action e n))) \<longrightarrow>
            install_hint \<notin> set (events (action e n)))"
proof -
  from completed_hint[OF assms] obtain b where
    a: "ask install_question (replies e ''installDeps'') = Some (JBool b)" and
    h: "install_hint \<in> set (events (action e n)) \<longleftrightarrow> \<not> b" and
    x: "execs (events (action e n)) =
       (if b then [(''npm'', [''install''], target_dir e n)] else []) @
       [(''git'', [''init''], target_dir e n)]"
    by blast
  from a h have "install_hint \<in> set (events (action e n)) \<longleftrightarrow>
           ask install_question (replies e ''installDeps'') = Some (JBool False)"
    by auto
  moreover have "\<forall>d. (''npm'', [''install''], d) \<in> set (execs (events (action e n))) \<longrightarrow>
            install_hint \<notin> set (events (action e n))"
    unfolding x using h by (cases b) auto
  ultimately show ?thesis by blast
qed

theorem install_hint_iff_declined_witness:
  "completed (action no_install_env ''demo'') \<and>
   ask install_question (replies no_install_env ''installDeps'') = Some (JBool False) \<and>
   install_hint \<in> set (events (action no_install_env ''demo'')) \<and>
   completed (action npm_fails_env ''demo'') \<and>
   (''npm'', [''install''], ''/home/op/demo'') \<in> set (execs (events (action npm_fails_env ''demo''))) \<and>
   execa npm_fails_env ''npm'' [''install''] ''/home/op/demo'' \<noteq> None \<and>
   install_hint \<notin> set (events (action npm_fails_env ''demo''))"
proof -
  have 1: "completed (action no_install_env ''demo'')"
    by code_simp
  have 2: "ask install_question (replies no_install_env ''installDeps'') = Some (JBool False)"
    by (simp add: install_question_def no_install_env_def sample_env_def)
  have 3: "completed (action npm_fails_env ''demo'')"
    by code_simp
  have "execs (events (action npm_fails_env ''demo'')) =
     [(''npm'', [''install''], ''/home/op/demo''), (''git'', [''init''], ''/home/op/demo'')]"
    by code_simp
  then have 4: "(''npm'', [''install''], ''/home/op/demo'') \<in> set (execs (events (action npm_fails_env ''demo'')))"
    by simp
  have 5: "execa npm_fails_env ''npm'' [''install''] ''/home/op/demo'' \<noteq> None"
    by (simp add: npm_fails_env_def sample_env_def)
  from install_hint_iff_declined[OF 1] 2
  have a: "install_hint \<in> set (events (action no_install_env ''demo''))" by blast
  from install_hint_iff_declined[OF 3] 4
  have b: "install_hint \<notin> set (events (action npm_fails_env ''demo''))" by blast
  from 1 2 3 4 5 a b show ?thesis by blast
qed

subsection \<open>The metadata prompts\<close>










subsection \<open>Failures of the manifest input and output\<close>

text \<open>
  Claim C8 says that every failure is caught where it arises and reported to the
  operator, those of reading and writing the manifest included. The handler wraps
  \<^verbatim>\<open>fs.remove\<close>, \<^verbatim>\<open>fs.copy\<close> and both \<^verbatim>\<open>execa\<close> calls in \<^verbatim>\<open>try\<close>/\<^verbatim>\<open>catch\<close>, but not
  \<^verbatim>\<open>fs.readJson\<close> and \<^verbatim>\<open>fs.writeJson\<close>. The two runs below show what follows: when
  the manifest cannot be read, the trace ends with the \<^verbatim>\<open>readJson\<close> call, no failure line
  is printed by the handler, and the rejection leaves the handler; when it cannot be
  written, the same happens at the \<^verbatim>\<open>writeJson\<close> call.
\<close>

theorem manifest_failures_are_unhandled:
  "action manifest_missing_env ''demo'' =
     Halt [Console_log (Chalk Blue (nl # ''Creating new project: demo'' @ [nl])),
           Spinner_start (Plain ''Copying boilerplate files...''),
           Fs_copy ''/usr/lib/create-js-backend/boilerplate'' ''/home/op/demo'',
           Spinner_succeed (Chalk Green ''Boilerplate copied!''),
           Chdir ''/home/op/demo'',
           Console_log (Chalk Magenta (nl # ''--- Project Metadata Setup ---'')),
           Console_log (Chalk Gray ''This will guide you through setting up package.json.''),
           Prompted ''package name:'', Prompted ''description:'', Prompted ''version:'',
           Prompted ''author:'', Prompted ''license:'', Prompted ''entry point:'',
           Read_json ''/home/op/demo/package.json'']
       (Unhandled ''ENOENT: no such file or directory'') \<and>
   outcome (action write_fails_env ''demo'') = Some (Unhandled ''EACCES: permission denied'') \<and>
   last (events (action write_fails_env ''demo'')) =
     Write_json ''/home/op/demo/package.json''
       [(''name'', JStr ''demo''), (''version'', JStr ''1.0.0''), (''type'', JStr ''module''),
        (''scripts'', JObj [(''dev'', JStr ''nodemon src/index.js'')]),
        (''license'', JStr ''UNLICENSED''),
        (''description'', JStr ''Boilerplate for JavaScript backend application''),
        (''author'', JStr ''''), (''main'', JStr ''index.js'')]"
  by code_simp

end
